theory Spec2Isabelle
  imports Complex_Main "HOL-Library.Sublist" "HOL-Library.Word"
begin

section \<open>Entities of the building model\<close>

text \<open>
  The checkers read IFC entities through attribute access. An entity is modelled as a
  record of the attributes the three checkers read; the model is a table from entity
  keys to entities. Python strings are modelled as ASCII character lists. A Python float
  is modelled as the real number it denotes; the rounded operations on floats are written
  out where a rule computes with them.

  \<^item> \<open>Decomposes\<close> lists, in order, the \<^verbatim>\<open>RelatingObject\<close> of every relation in the
    inverse attribute \<^verbatim>\<open>Decomposes\<close>;
  \<^item> \<open>container\<close> is the result of \<^verbatim>\<open>ifcopenshell.util.element.get_container\<close>
    (\<open>None\<close> also stands for a raised exception, which the source catches and treats
    alike);
  \<^item> \<open>ifc_class\<close> is the entity's IFC class, which \<^verbatim>\<open>by_type\<close> and \<^verbatim>\<open>is_a\<close> test
    (a raising \<^verbatim>\<open>is_a\<close> is caught by the source and treated as \<open>False\<close>);
  \<^item> \<open>pset_LongName\<close> and \<open>pset_Name\<close> are the string entries of the property set
    \<^verbatim>\<open>Pset_SpaceCommon\<close> as \<^verbatim>\<open>get_psets\<close> returns them;
  \<^item> \<open>IsDefinedBy\<close> lists per relation the \<^verbatim>\<open>RelatingPropertyDefinition\<close> (\<open>None\<close>
    when absent or falsy) as the list of the \<^verbatim>\<open>AreaValue\<close> of its \<^verbatim>\<open>Quantities\<close>.
\<close>

record entity =
  LongName :: "string option"
  Name :: "string option"
  GlobalId :: "string option"
  ObjectType :: "string option"
  PredefinedType :: "string option"
  pset_LongName :: "string option"
  pset_Name :: "string option"
  ifc_class :: string
  Decomposes :: "nat list"
  container :: "nat option"
  IsDefinedBy :: "real option list option list"
  Area :: "real option"

type_synonym model = "(nat \<times> entity) list"

definition blank :: entity where
  "blank = \<lparr>LongName = None, Name = None, GlobalId = None, ObjectType = None,
     PredefinedType = None, pset_LongName = None, pset_Name = None, ifc_class = ''IfcSpace'',
     Decomposes = [], container = None, IsDefinedBy = [], Area = None\<rparr>"

section \<open>Storey resolution\<close>

text \<open>
  \<^verbatim>\<open>parents[0].RelatingObject if parents else None\<close>: the first decomposition parent.
  An identity outside the table stands for an entity without relations.
\<close>

definition decomp_parent :: "model \<Rightarrow> nat \<Rightarrow> nat option" where
  "decomp_parent g n =
     (case map_of g n of
        None \<Rightarrow> None
      | Some e \<Rightarrow> (case Decomposes e of [] \<Rightarrow> None | p # _ \<Rightarrow> Some p))"

definition get_container :: "model \<Rightarrow> nat \<Rightarrow> nat option" where
  "get_container g n = (case map_of g n of None \<Rightarrow> None | Some e \<Rightarrow> container e)"

definition is_a_storey :: "model \<Rightarrow> nat \<Rightarrow> bool" where
  "is_a_storey g n = (case map_of g n of None \<Rightarrow> False | Some e \<Rightarrow> ifc_class e = ''IfcBuildingStorey'')"

text \<open>
  The loop shared by both attempts of \<^verbatim>\<open>_storey_of_space\<close>:
  \<^verbatim>\<open>
  while st_ and id(st_) not in seen:
      seen.add(id(st_))
      if st_.is_a("IfcBuildingStorey"): return st_
      parents = getattr(st_, "Decomposes", None)
      st_ = parents[0].RelatingObject if parents else None
  \<close>
  The visited set holds \<^verbatim>\<open>id(st_)\<close>, the address of the Python object in hand, not the
  entity. Whether two objects for the same entity share an address, and whether the
  address of a discarded object is given to a later one, is decided by the backend and the
  allocator, outside the source. The loop is therefore given the addresses as a
  parameter: \<open>ids k\<close> is the address of the object that the loop holds in its iteration
  \<open>k\<close>. Addresses are machine words, so there are finitely many, and this is what makes
  the loop end. The result is paired with the number of nodes visited.
\<close>

type_synonym addr = "64 word"
type_synonym idseq = "nat \<Rightarrow> addr"

function climb :: "model \<Rightarrow> idseq \<Rightarrow> addr set \<Rightarrow> nat option \<Rightarrow> nat \<Rightarrow> nat option \<times> nat" where
  "climb g ids seen None k = (None, k)"
| "climb g ids seen (Some n) k =
     (if ids k \<in> seen then (None, k)
      else if is_a_storey g n then (Some n, Suc k)
      else climb g ids (insert (ids k) seen) (decomp_parent g n) (Suc k))"
  by pat_completeness auto
termination
proof (relation "measure (\<lambda>(g, ids, seen, st, k). card (- seen))")
  show "wf (measure (\<lambda>(g, ids, seen, st, k). card (- seen)))"
    by simp
next
  fix g :: model and ids :: idseq and seen :: "addr set" and n k :: nat
  assume "ids k \<notin> seen"
  then have "- insert (ids k) seen \<subset> - seen" by auto
  then have "card (- insert (ids k) seen) < card (- seen)"
    by (intro psubset_card_mono) simp_all
  then show "((g, ids, insert (ids k) seen, decomp_parent g n, Suc k), (g, ids, seen, Some n, k))
        \<in> measure (\<lambda>(g, ids, seen, st, k). card (- seen))"
    by simp
qed

definition walk :: "model \<Rightarrow> idseq \<Rightarrow> nat option \<Rightarrow> nat option" where
  "walk g ids st = fst (climb g ids {} st 0)"

definition visited :: "model \<Rightarrow> idseq \<Rightarrow> nat option \<Rightarrow> nat" where
  "visited g ids st = snd (climb g ids {} st 0)"

text \<open>
  \<^verbatim>\<open>_storey_of_space\<close> (identical in \<^verbatim>\<open>floors_checker.py\<close> and \<^verbatim>\<open>parking_checker.py\<close>):
  the first attempt starts at the space's first decomposition parent, the second at the
  space's container; both climb along \<^verbatim>\<open>Decomposes\<close>, each with a visited set of its own.
  \<open>ids1\<close> and \<open>ids2\<close> are the addresses of the objects of the two attempts.
\<close>

definition storey_of_space :: "model \<Rightarrow> idseq \<Rightarrow> idseq \<Rightarrow> nat \<Rightarrow> nat option" where
  "storey_of_space g ids1 ids2 space =
     (case walk g ids1 (decomp_parent g space) of
        Some s \<Rightarrow> Some s
      | None \<Rightarrow> walk g ids2 (get_container g space))"

text \<open>
  Vocabulary for stating what a walk finds: \<open>chain g k st\<close> is the node \<open>k\<close> steps along
  the first decomposition parent from \<open>st\<close>; \<open>reaches g ids st s\<close> says that \<open>s\<close> is the
  first storey on that chain and that the objects up to it have pairwise distinct
  addresses; \<open>reach_from\<close> is the same from the middle of a walk.
\<close>

fun chain :: "model \<Rightarrow> nat \<Rightarrow> nat option \<Rightarrow> nat option" where
  "chain g 0 st = st"
| "chain g (Suc k) st =
     (case st of None \<Rightarrow> None | Some n \<Rightarrow> chain g k (decomp_parent g n))"

definition chain_storey :: "model \<Rightarrow> nat \<Rightarrow> nat option \<Rightarrow> bool" where
  "chain_storey g k st =
     (case chain g k st of None \<Rightarrow> False | Some m \<Rightarrow> is_a_storey g m)"

definition reach_from :: "model \<Rightarrow> idseq \<Rightarrow> addr set \<Rightarrow> nat \<Rightarrow> nat option \<Rightarrow> nat \<Rightarrow> bool" where
  "reach_from g ids seen k st s \<longleftrightarrow>
     (\<exists>j. chain g j st = Some s \<and> is_a_storey g s \<and> (\<forall>i<j. \<not> chain_storey g i st) \<and>
          (\<forall>i\<le>j. ids (k + i) \<notin> seen \<union> ids ` {k..<k + i}))"

definition reaches :: "model \<Rightarrow> idseq \<Rightarrow> nat option \<Rightarrow> nat \<Rightarrow> bool" where
  "reaches g ids st s \<longleftrightarrow>
     (\<exists>j. chain g j st = Some s \<and> is_a_storey g s \<and> (\<forall>i<j. \<not> chain_storey g i st) \<and>
          distinct (map ids [0..<Suc j]))"

subsection \<open>The resolver as the specification words it\<close>





subsection \<open>Example hierarchies\<close>

text \<open>A chain of \<open>N\<close> entities, each aggregated into the next, with no storey.\<close>

definition line_graph :: "nat \<Rightarrow> model" where
  "line_graph N = map (\<lambda>i. (i, blank\<lparr>Decomposes := [Suc i]\<rparr>)) [0..<N]"


text \<open>
  A space nested four levels below its storey: space 1 is part of space 2, that of 3,
  that of 4, and 4 is part of the storey 5.
\<close>

definition deep_model :: model where
  "deep_model =
     [(1, blank\<lparr>Decomposes := [2]\<rparr>),
      (2, blank\<lparr>Decomposes := [3]\<rparr>),
      (3, blank\<lparr>Decomposes := [4]\<rparr>),
      (4, blank\<lparr>Decomposes := [5]\<rparr>),
      (5, blank\<lparr>ifc_class := ''IfcBuildingStorey'', Name := Some ''Level 1''\<rparr>)]"

text \<open>Two entities that decompose from each other: A is 1, B is 2.\<close>

definition cyclic_model :: model where
  "cyclic_model =
     [(1, blank\<lparr>Decomposes := [2]\<rparr>),
      (2, blank\<lparr>Decomposes := [1]\<rparr>)]"

text \<open>
  Two ways in which the objects of a walk receive addresses: every object an address of
  its own, and three addresses handed out in turn (the fourth object receives the address
  of the first, which has been discarded).
\<close>

definition fresh_ids :: idseq where
  "fresh_ids k = of_nat k"

definition recycled_ids :: idseq where
  "recycled_ids k = of_nat (k mod 3)"

section \<open>Strings\<close>

text \<open>
  \<^verbatim>\<open>str.strip()\<close>, \<^verbatim>\<open>str.lower()\<close>, \<^verbatim>\<open>str.casefold()\<close> and \<^verbatim>\<open>str.upper()\<close> on ASCII
  strings (on ASCII, \<^verbatim>\<open>casefold\<close> and \<^verbatim>\<open>lower\<close> agree).
\<close>

definition is_whitespace :: "char \<Rightarrow> bool" where
  "is_whitespace c = (let n = (of_char c :: nat) in (9 \<le> n \<and> n \<le> 13) \<or> (28 \<le> n \<and> n \<le> 32))"

definition strip :: "string \<Rightarrow> string" where
  "strip s = rev (dropWhile is_whitespace (rev (dropWhile is_whitespace s)))"

definition lower_char :: "char \<Rightarrow> char" where
  "lower_char c = (let n = (of_char c :: nat) in if 65 \<le> n \<and> n \<le> 90 then char_of (n + 32) else c)"

definition upper_char :: "char \<Rightarrow> char" where
  "upper_char c = (let n = (of_char c :: nat) in if 97 \<le> n \<and> n \<le> 122 then char_of (n - 32) else c)"

definition lower :: "string \<Rightarrow> string" where
  "lower s = map lower_char s"

definition upper :: "string \<Rightarrow> string" where
  "upper s = map upper_char s"

definition endswith :: "string \<Rightarrow> string \<Rightarrow> bool" where
  "endswith s suf = prefix (rev suf) (rev s)"

text \<open>\<^verbatim>\<open>sub in s\<close> on strings.\<close>

fun py_in :: "string \<Rightarrow> string \<Rightarrow> bool" where
  "py_in sub [] = (sub = [])"
| "py_in sub (c # cs) = (prefix sub (c # cs) \<or> py_in sub cs)"

text \<open>\<^verbatim>\<open>a or b\<close> on optional strings: \<open>None\<close> and the empty string are falsy.\<close>

definition str_or :: "string option \<Rightarrow> string \<Rightarrow> string" where
  "str_or a b = (case a of None \<Rightarrow> b | Some s \<Rightarrow> if s = [] then b else s)"

datatype py_error = IndexError | ValueError | KeyError | RuntimeError

section \<open>The opened IFC file\<close>

text \<open>
  \<open>entities\<close> is the table of entities, \<open>by_type_raises\<close> says whether the type
  enumeration \<^verbatim>\<open>by_type\<close> raises, and \<open>unit_assignments\<close> is what
  \<^verbatim>\<open>by_type("IfcUnitAssignment")\<close> returns: per assignment its \<^verbatim>\<open>Units\<close>, or the
  exception that reading them raises.
\<close>

datatype attr = Absent | PyNone | Str string

record unit =
  UnitType :: attr
  unit_Name :: attr
  Prefix :: attr

record ifc_file =
  entities :: model
  by_type_raises :: bool
  unit_assignments :: "(py_error + unit list) list"

definition by_type :: "ifc_file \<Rightarrow> string \<Rightarrow> py_error + (nat \<times> entity) list" where
  "by_type f t =
     (if by_type_raises f then Inl RuntimeError
      else Inr (filter (\<lambda>(i, e). ifc_class e = t) (entities f)))"

section \<open>Unit scale\<close>

text \<open>
  \<^verbatim>\<open>str(getattr(u, a, default))\<close>: an absent attribute gives the default, \<^verbatim>\<open>None\<close>
  prints as \<^verbatim>\<open>"None"\<close>.
\<close>

definition str_attr :: "attr \<Rightarrow> string \<Rightarrow> string" where
  "str_attr a dflt = (case a of Absent \<Rightarrow> dflt | PyNone \<Rightarrow> ''None'' | Str s \<Rightarrow> s)"

definition is_length_unit :: "unit \<Rightarrow> bool" where
  "is_length_unit u = endswith (upper (str_attr (UnitType u) ''None'')) ''LENGTHUNIT''"

definition unit_nm :: "unit \<Rightarrow> string" where
  "unit_nm u = upper (str_attr (unit_Name u) ''METRE'')"

text \<open>\<^verbatim>\<open>str(getattr(u, "Prefix", "") or "").upper()\<close>\<close>

definition unit_pref :: "unit \<Rightarrow> string" where
  "unit_pref u = upper (case Prefix u of Absent \<Rightarrow> [] | PyNone \<Rightarrow> [] | Str s \<Rightarrow> s)"

definition is_metre :: "string \<Rightarrow> bool" where
  "is_metre nm = (nm \<in> set [''METRE'', ''METRES'', ''METER'', ''METERS''])"

definition is_foot :: "string \<Rightarrow> bool" where
  "is_foot nm = (nm \<in> set [''FOOT'', ''FEET''])"

text \<open>
  The body of the loop over \<^verbatim>\<open>ua.Units\<close> for one length unit: \<open>Some r\<close> is
  \<^verbatim>\<open>return r\<close>, \<open>None\<close> is falling through to the next unit.
\<close>

definition unit_scale :: "unit \<Rightarrow> real option" where
  "unit_scale u =
     (let nm = unit_nm u; pref = unit_pref u in
      case (if is_metre nm then
              (if pref \<in> set [[], ''UNIT''] then Some 1
               else if pref = ''MILLI'' then Some (1 / 1000)
               else if pref = ''CENTI'' then Some (1 / 100)
               else if pref = ''DECI'' then Some (1 / 10)
               else None)
            else None) of
        Some r \<Rightarrow> Some r
      | None \<Rightarrow> if is_foot nm then Some (3048 / 10000) else None)"

fun scan_units :: "unit list \<Rightarrow> real" where
  "scan_units [] = 1"
| "scan_units (u # us) =
     (if is_length_unit u then
        (case unit_scale u of Some r \<Rightarrow> r | None \<Rightarrow> scan_units us)
      else scan_units us)"

definition detect_length_scale_meters :: "ifc_file \<Rightarrow> real" where
  "detect_length_scale_meters f =
     (if by_type_raises f then 1
      else case unit_assignments f of
             [] \<Rightarrow> 1
           | ua # _ \<Rightarrow> (case ua of Inl _ \<Rightarrow> 1 | Inr units \<Rightarrow> scan_units units))"

subsection \<open>The table of the specification\<close>

text \<open>
  The table of the specification over the attributes of a unit, with the spellings the
  source accepts: \<open>entry_scale u\<close> is the table value of a length unit whose name and
  prefix are in the table, and \<open>None\<close> for any other unit. \<open>first_entry\<close> is the first
  table value along a list of units.
\<close>

definition spec_table :: "string \<Rightarrow> string \<Rightarrow> real option" where
  "spec_table nm pref =
     (if nm = ''METRE'' \<or> nm = ''METRES'' \<or> nm = ''METER'' \<or> nm = ''METERS'' then
        (if pref = [] \<or> pref = ''UNIT'' then Some 1
         else if pref = ''MILLI'' then Some (1 / 1000)
         else if pref = ''CENTI'' then Some (1 / 100)
         else if pref = ''DECI'' then Some (1 / 10)
         else None)
      else if nm = ''FOOT'' \<or> nm = ''FEET'' then Some (3048 / 10000)
      else None)"

definition entry_scale :: "unit \<Rightarrow> real option" where
  "entry_scale u =
     (case UnitType u of
        Str t \<Rightarrow>
          if endswith (upper t) ''LENGTHUNIT'' then
            spec_table
              (upper (case unit_Name u of Absent \<Rightarrow> ''METRE'' | PyNone \<Rightarrow> ''None'' | Str n \<Rightarrow> n))
              (upper (case Prefix u of Str p \<Rightarrow> p | _ \<Rightarrow> []))
          else None
      | _ \<Rightarrow> None)"

fun first_entry :: "unit list \<Rightarrow> real option" where
  "first_entry [] = None"
| "first_entry (u # us) = (case entry_scale u of Some r \<Rightarrow> Some r | None \<Rightarrow> first_entry us)"

section \<open>Footprint area\<close>

text \<open>
  \<open>verts\<close> and \<open>faces\<close> are the flat vertex and index buffers of a meshed shape. The
  geometry kernel and the polygon library are not part of the repository: they are taken
  as a parameter, a record of the operations the source calls, each returning its result
  or the exception it raises.
\<close>

record shape =
  verts :: "real list"
  faces :: "int list"

type_synonym point = "real \<times> real"
type_synonym triangle = "point \<times> point \<times> point"

record 'p geom_backend =
  available :: bool
  create_shape :: "nat \<Rightarrow> py_error + shape"
  Polygon :: "triangle \<Rightarrow> py_error + 'p"
  unary_union :: "'p list \<Rightarrow> py_error + 'p"
  area :: "'p \<Rightarrow> real"

text \<open>\<^verbatim>\<open>xs[a:b]\<close> with Python's treatment of negative and out-of-range bounds.\<close>

definition py_slice :: "'a list \<Rightarrow> int \<Rightarrow> int \<Rightarrow> 'a list" where
  "py_slice xs a b =
     (let n = int (length xs);
          lo = (if a < 0 then max (a + n) 0 else min a n);
          hi = (if b < 0 then max (b + n) 0 else min b n)
      in take (nat (hi - lo)) (drop (nat lo) xs))"

text \<open>\<^verbatim>\<open>x, y, z = verts[3*i:3*i+3]\<close>: unpacking raises unless the slice has three items.\<close>

definition vertex :: "real list \<Rightarrow> int \<Rightarrow> py_error + real \<times> real \<times> real" where
  "vertex vs i =
     (case py_slice vs (3 * i) (3 * i + 3) of
        [x, y, z] \<Rightarrow> Inr (x, y, z)
      | _ \<Rightarrow> Inl ValueError)"

text \<open>
  \<^verbatim>\<open>_triangles_from_shape\<close>: the loop \<^verbatim>\<open>for i in range(0, len(faces), 3)\<close> consumes the
  index buffer three at a time; one or two indices left over make \<^verbatim>\<open>faces[i+1]\<close> or
  \<^verbatim>\<open>faces[i+2]\<close> raise.
\<close>

fun triangles :: "real list \<Rightarrow> real \<Rightarrow> int list \<Rightarrow> py_error + triangle list" where
  "triangles vs scale [] = Inr []"
| "triangles vs scale (i0 # i1 # i2 # rest) =
     (case vertex vs i0 of Inl e \<Rightarrow> Inl e | Inr (x0, y0, z0) \<Rightarrow>
      case vertex vs i1 of Inl e \<Rightarrow> Inl e | Inr (x1, y1, z1) \<Rightarrow>
      case vertex vs i2 of Inl e \<Rightarrow> Inl e | Inr (x2, y2, z2) \<Rightarrow>
      case triangles vs scale rest of Inl e \<Rightarrow> Inl e | Inr ts \<Rightarrow>
        Inr (((x0 * scale, y0 * scale), (x1 * scale, y1 * scale),
              (x2 * scale, z2 * 0 + y2 * scale)) # ts))"
| "triangles vs scale _ = Inl IndexError"

definition triangles_from_shape :: "shape \<Rightarrow> real \<Rightarrow> py_error + triangle list" where
  "triangles_from_shape sh scale = triangles (verts sh) scale (faces sh)"

text \<open>\<^verbatim>\<open>[Polygon(t) for t in tris]\<close>: the first raising constructor aborts the list.\<close>

fun polygons :: "(triangle \<Rightarrow> py_error + 'p) \<Rightarrow> triangle list \<Rightarrow> py_error + 'p list" where
  "polygons mk [] = Inr []"
| "polygons mk (t # ts) =
     (case mk t of Inl e \<Rightarrow> Inl e | Inr p \<Rightarrow>
      case polygons mk ts of Inl e \<Rightarrow> Inl e | Inr ps \<Rightarrow> Inr (p # ps))"

text \<open>
  The list \<^verbatim>\<open>polys = [Polygon(t) for t in _triangles_from_shape(shape, scale_m)]\<close>
  that the source hands to the union.
\<close>

definition shape_polygons :: "'p geom_backend \<Rightarrow> shape \<Rightarrow> real \<Rightarrow> py_error + 'p list" where
  "shape_polygons B sh scale_m =
     (case triangles_from_shape sh scale_m of
        Inl e \<Rightarrow> Inl e
      | Inr ts \<Rightarrow> polygons (Polygon B) ts)"

text \<open>
  \<^verbatim>\<open>_space_geom_area_m2\<close>: every exception of either \<^verbatim>\<open>try\<close> block is turned into
  \<^verbatim>\<open>None\<close>.
\<close>

definition space_geom_area_m2 :: "'p geom_backend \<Rightarrow> nat \<Rightarrow> real \<Rightarrow> real option" where
  "space_geom_area_m2 B space scale_m =
     (if \<not> available B then None
      else case create_shape B space of Inl _ \<Rightarrow> None | Inr sh \<Rightarrow>
           case shape_polygons B sh scale_m of Inl _ \<Rightarrow> None | Inr polys \<Rightarrow>
             if polys = [] then None
             else case unary_union B polys of Inl _ \<Rightarrow> None
                  | Inr merged \<Rightarrow> Some (area B merged))"

text \<open>\<^verbatim>\<open>_fallback_space_area_m2\<close>: the first strictly positive quantity, else the attribute.\<close>

fun first_area_value :: "real option list \<Rightarrow> real option" where
  "first_area_value [] = None"
| "first_area_value (v # vs) =
     (case v of
        Some val \<Rightarrow> if val \<noteq> 0 \<and> val > 0 then Some val else first_area_value vs
      | None \<Rightarrow> first_area_value vs)"

fun first_quantity_area :: "real option list option list \<Rightarrow> real option" where
  "first_quantity_area [] = None"
| "first_quantity_area (q # rels) =
     (case q of
        None \<Rightarrow> first_quantity_area rels
      | Some quantities \<Rightarrow>
          (case first_area_value quantities of
             Some val \<Rightarrow> Some val
           | None \<Rightarrow> first_quantity_area rels))"

definition fallback_space_area_m2 :: "entity \<Rightarrow> real option" where
  "fallback_space_area_m2 s =
     (case first_quantity_area (IsDefinedBy s) of
        Some val \<Rightarrow> Some val
      | None \<Rightarrow>
          (case Area s of
             Some a \<Rightarrow> if a \<noteq> 0 \<and> a > 0 then Some a else None
           | None \<Rightarrow> None))"

text \<open>
  \<^verbatim>\<open>area_for_id\<close>; \<^verbatim>\<open>model.by_id(space_id)\<close> is the space \<open>s\<close> whose identity is
  \<open>space_id\<close>. The function is pure, so the \<^verbatim>\<open>lru_cache\<close> around it does not change
  its results.
\<close>

definition area_for_id :: "'p geom_backend \<Rightarrow> real \<Rightarrow> nat \<Rightarrow> entity \<Rightarrow> real option" where
  "area_for_id B scale_m space_id s =
     (case space_geom_area_m2 B space_id scale_m of
        Some a \<Rightarrow> if a \<noteq> 0 \<and> a > 0 then Some a else fallback_space_area_m2 s
      | None \<Rightarrow> fallback_space_area_m2 s)"

text \<open>Twice the signed area of a triangle; it is zero exactly for degenerate triangles.\<close>

definition signed_area2 :: "triangle \<Rightarrow> real" where
  "signed_area2 t =
     (case t of ((x0, y0), (x1, y1), (x2, y2)) \<Rightarrow>
        (x1 - x0) * (y2 - y0) - (x2 - x0) * (y1 - y0))"

definition degenerate :: "triangle \<Rightarrow> bool" where
  "degenerate t \<longleftrightarrow> signed_area2 t = 0"

subsection \<open>The geometric path with degenerate triangles excluded\<close>





subsection \<open>A stand-in for the geometry libraries\<close>

text \<open>
  A backend for concrete meshes. Every space has the mesh \<open>sh\<close>. A geometry is the list
  of the proper triangles it is made of: the polygon of a triangle is that triangle, and
  the area of a geometry is the sum of the areas of its triangles. The union drops
  degenerate triangles and repetitions; it is computed where this needs no clipping, that
  is, when at most one triangle remains. For other inputs the stand-in has no answer,
  which is modelled as an exception; no statement rests on such an input.
\<close>

definition triangle_parts :: "triangle list list \<Rightarrow> triangle list" where
  "triangle_parts ps = remdups (filter (\<lambda>t. \<not> degenerate t) (concat ps))"

definition vertex_backend :: "shape \<Rightarrow> triangle list geom_backend" where
  "vertex_backend sh =
     \<lparr>available = True,
      create_shape = (\<lambda>_. Inr sh),
      Polygon = (\<lambda>t. Inr [t]),
      unary_union = (\<lambda>ps. case triangle_parts ps of
                             [] \<Rightarrow> Inr []
                           | [t] \<Rightarrow> Inr [t]
                           | _ \<Rightarrow> Inl RuntimeError),
      area = (\<lambda>ts. sum_list (map (\<lambda>t. \<bar>signed_area2 t\<bar> / 2) ts))\<rparr>"

text \<open>
  Meshes: one triangle with the corners (0,0), (2,0), (0,2); one triangle whose corners
  (0,0), (1,1), (2,2) lie on a line; both triangles together; and a mesh whose index
  buffer points outside the vertex buffer.
\<close>

definition right_triangle_mesh :: shape where
  "right_triangle_mesh = \<lparr>verts = [0, 0, 0, 2, 0, 0, 0, 2, 0], faces = [0, 1, 2]\<rparr>"

definition collinear_mesh :: shape where
  "collinear_mesh = \<lparr>verts = [0, 0, 0, 1, 1, 0, 2, 2, 0], faces = [0, 1, 2]\<rparr>"

definition mixed_mesh :: shape where
  "mixed_mesh =
     \<lparr>verts = [0, 0, 0, 2, 0, 0, 0, 2, 0, 1, 1, 0, 2, 2, 0],
      faces = [0, 1, 2, 0, 3, 4]\<rparr>"


text \<open>A space whose only area information besides its mesh is the attribute \<open>Area = 5\<close>.\<close>

definition space_with_area_5 :: entity where
  "space_with_area_5 = blank\<lparr>Area := Some 5\<rparr>"

section \<open>Floating-point arithmetic\<close>

text \<open>
  The parking rule computes with Python floats. An operation on floats returns the exact
  result rounded to a float, so a sum of floats need not be the sum of the numbers. How
  the results are rounded is the interpreter's and the machine's business, not the
  source's: the rounded operations the rule uses are taken as a parameter.
  \<open>fsum\<close> is \<^verbatim>\<open>sum(...)\<close> over floats, \<open>fmul\<close>, \<open>fdiv\<close> and \<open>fsub\<close> are \<^verbatim>\<open>*\<close>, \<^verbatim>\<open>/\<close>
  and \<^verbatim>\<open>-\<close>, and \<open>fround2\<close> is \<^verbatim>\<open>round(a, 2)\<close>.
\<close>

record float_arith =
  fsum :: "real list \<Rightarrow> real"
  fmul :: "real \<Rightarrow> real \<Rightarrow> real"
  fdiv :: "real \<Rightarrow> real \<Rightarrow> real"
  fsub :: "real \<Rightarrow> real \<Rightarrow> real"
  fround2 :: "real \<Rightarrow> real"

text \<open>
  The arithmetic of IEEE 754 double precision, for concrete inputs: \<open>fl\<close> rounds a real
  to the nearest number with 53 significant bits, ties to the even one (overflow and
  subnormal numbers are left out), and each operation rounds its exact result. The sum
  adds from left to right, starting from 0.
\<close>

definition round_half_even :: "real \<Rightarrow> int" where
  "round_half_even x =
     (let f = \<lfloor>x\<rfloor>; d = x - of_int f in
      if d < 1 / 2 then f else if d > 1 / 2 then f + 1 else if even f then f else f + 1)"

definition fl :: "real \<Rightarrow> real" where
  "fl x =
     (if x = 0 then 0
      else let e = \<lfloor>log 2 \<bar>x\<bar>\<rfloor>
           in of_int (round_half_even (x * 2 powr of_int (52 - e))) * 2 powr of_int (e - 52))"

definition binary64 :: float_arith where
  "binary64 =
     \<lparr>fsum = foldl (\<lambda>a b. fl (a + b)) 0,
      fmul = (\<lambda>a b. fl (a * b)),
      fdiv = (\<lambda>a b. fl (a / b)),
      fsub = (\<lambda>a b. fl (a - b)),
      fround2 = (\<lambda>a. fl (of_int (round_half_even (a * 100)) / 100))\<rparr>"

section \<open>Parking rule\<close>

text \<open>\<^verbatim>\<open>REQ_PER_STAFF = 1/3.0\<close> and \<^verbatim>\<open>SLOT_AREA = 21.0\<close>\<close>

definition REQ_PER_STAFF :: "float_arith \<Rightarrow> real" where
  "REQ_PER_STAFF A = fdiv A 1 3"

definition SLOT_AREA :: real where
  "SLOT_AREA = 21"

text \<open>\<^verbatim>\<open>_is_exact_parking\<close>\<close>

definition is_exact_parking :: "string \<Rightarrow> bool" where
  "is_exact_parking name = (lower (strip name) = ''parking'')"

text \<open>
  The loop that collects the rows of the spaces named exactly ``parking''. Of a row only
  the column \<^verbatim>\<open>Area (m2)\<close> enters the rule; the other columns are display data.
\<close>

fun parking_rows ::
  "'p geom_backend \<Rightarrow> float_arith \<Rightarrow> real \<Rightarrow> (nat \<times> entity) list \<Rightarrow> real option list" where
  "parking_rows B A scale_m [] = []"
| "parking_rows B A scale_m ((i, s) # spaces) =
     (let ln = strip (str_or (LongName s) []); nm = strip (str_or (Name s) []) in
      if is_exact_parking ln \<or> is_exact_parking nm then
        (case area_for_id B scale_m i s of
           Some a \<Rightarrow> (if a \<noteq> 0 then Some (fround2 A a) else None)
         | None \<Rightarrow> None) # parking_rows B A scale_m spaces
      else parking_rows B A scale_m spaces)"

text \<open>\<^verbatim>\<open>sum(r["Area (m2)"] or 0.0 for r in rows)\<close>\<close>

definition total_area_of :: "float_arith \<Rightarrow> real option list \<Rightarrow> real" where
  "total_area_of A rows = fsum A (map (\<lambda>r. case r of None \<Rightarrow> 0 | Some v \<Rightarrow> v) rows)"

record parking_figures =
  total_area :: real
  slots_raw :: real
  slots_int :: int
  req_slots :: int
  ok :: bool
  short_slots :: int
  short_area :: real

definition parking_check :: "float_arith \<Rightarrow> real option list \<Rightarrow> int \<Rightarrow> parking_figures" where
  "parking_check A rows staff_count =
     (let total = total_area_of A rows;
          raw = (if total > 0 then fdiv A total SLOT_AREA else 0);
          whole = \<lfloor>raw\<rfloor>;
          req = \<lceil>fmul A (of_int staff_count) (REQ_PER_STAFF A)\<rceil>
      in \<lparr>total_area = total, slots_raw = raw, slots_int = whole, req_slots = req,
          ok = (raw \<ge> of_int req),
          short_slots = max 0 (req - whole),
          short_area = max 0 (fsub A (fmul A (of_int req) SLOT_AREA) total)\<rparr>)"

text \<open>
  The figures the two messages show: the success message names the required slots, the
  available slots, the usable whole slots and the total area; the error message names
  the shortfall in slots and in area instead of the total area.
\<close>

datatype parking_message =
  Parking_OK int real int real
| Parking_Not_OK int real int int real

definition parking_message_of :: "parking_figures \<Rightarrow> parking_message" where
  "parking_message_of r =
     (if ok r then Parking_OK (req_slots r) (slots_raw r) (slots_int r) (total_area r)
      else Parking_Not_OK (req_slots r) (slots_raw r) (slots_int r) (short_slots r)
             (short_area r))"

text \<open>Whether a message shows the two shortfall figures.\<close>

fun shows_shortfall :: "parking_message \<Rightarrow> bool" where
  "shows_shortfall (Parking_OK req raw whole area_total) = False"
| "shows_shortfall (Parking_Not_OK req raw whole slots missing) = True"

text \<open>
  \<^verbatim>\<open>render_parking_checker\<close> on a loaded model: no message when the model has no space.
\<close>

definition render_parking_checker ::
  "'p geom_backend \<Rightarrow> float_arith \<Rightarrow> ifc_file \<Rightarrow> int \<Rightarrow> py_error + parking_message option" where
  "render_parking_checker B A f staff_count =
     (let scale_m = detect_length_scale_meters f in
      case by_type f ''IfcSpace'' of
        Inl e \<Rightarrow> Inl e
      | Inr spaces \<Rightarrow>
          if spaces = [] then Inr None
          else Inr (Some (parking_message_of
                            (parking_check A (parking_rows B A scale_m spaces) staff_count))))"

section \<open>Floor-distribution rule\<close>

text \<open>\<^verbatim>\<open>_norm\<close> of \<^verbatim>\<open>floors_checker.py\<close>, on a string.\<close>

definition norm_lower :: "string \<Rightarrow> string" where
  "norm_lower s = lower (strip s)"

text \<open>\<^verbatim>\<open>_prefer_longname\<close>\<close>

definition prefer_longname :: "entity \<Rightarrow> string" where
  "prefer_longname space = strip (str_or (LongName space) (str_or (Name space) []))"

text \<open>\<^verbatim>\<open>_prefer_storey_name\<close>\<close>

definition prefer_storey_name :: "entity \<Rightarrow> string" where
  "prefer_storey_name sto =
     (let nm = strip (str_or (LongName sto) (str_or (Name sto) [])) in
      if nm \<noteq> [] then nm
      else ''Unnamed Storey ('' @ str_or (GlobalId sto) ''NO-ID'' @ '')'')"

text \<open>
  The name under which a space's storey is recorded:
  \<^verbatim>\<open>_prefer_storey_name(strobj) if strobj else "(No storey)"\<close>. \<open>ids\<close> holds the
  addresses of the objects of the two attempts of this call of the resolver.
\<close>

definition storey_name_of :: "model \<Rightarrow> idseq \<times> idseq \<Rightarrow> nat \<Rightarrow> string" where
  "storey_name_of g ids sp =
     (case storey_of_space g (fst ids) (snd ids) sp of
        None \<Rightarrow> ''(No storey)''
      | Some sto \<Rightarrow>
          (case map_of g sto of
             None \<Rightarrow> prefer_storey_name blank
           | Some e \<Rightarrow> prefer_storey_name e))"

definition is_classroom_space :: "entity \<Rightarrow> bool" where
  "is_classroom_space sp = py_in ''classroom'' (norm_lower (prefer_longname sp))"

text \<open>
  The loop over \<^verbatim>\<open>spaces_all\<close>: the state is the list of records, of which the columns
  \<^verbatim>\<open>Space Name\<close>, \<^verbatim>\<open>Room No.\<close> and \<^verbatim>\<open>Storey\<close> are kept, and the set \<^verbatim>\<open>storey_names\<close>.
  \<open>ids i\<close> holds the object addresses of the resolver call for the space with key \<open>i\<close>.
\<close>

record floor_record =
  Space_Name :: string
  Room_No :: string
  Storey :: string

fun collect_classrooms ::
  "model \<Rightarrow> (nat \<Rightarrow> idseq \<times> idseq) \<Rightarrow> (nat \<times> entity) list
     \<Rightarrow> floor_record list \<times> string set \<Rightarrow> floor_record list \<times> string set" where
  "collect_classrooms g ids [] acc = acc"
| "collect_classrooms g ids ((i, sp) # spaces) (records, storey_names) =
     (if is_classroom_space sp then
        (let room_no_str = strip (str_or (Name sp) []);
             stname = storey_name_of g (ids i) i
         in collect_classrooms g ids spaces
              (records @ [\<lparr>Space_Name = prefer_longname sp, Room_No = room_no_str,
                           Storey = stname\<rparr>],
               insert stname storey_names))
      else collect_classrooms g ids spaces (records, storey_names))"

datatype floors_verdict =
  Standard nat int
| Exceeds int nat int

text \<open>
  \<^verbatim>\<open>render_floors_with_classrooms\<close> on a loaded model: \<^verbatim>\<open>levels\<close> is the sorted list of
  the set \<^verbatim>\<open>storey_names\<close>, so \<^verbatim>\<open>count_levels = len(levels)\<close> is the number of its
  elements. A raising type enumeration ends the rendering without a verdict.
\<close>

definition count_levels :: "ifc_file \<Rightarrow> (nat \<Rightarrow> idseq \<times> idseq) \<Rightarrow> py_error + nat" where
  "count_levels f ids =
     (case by_type f ''IfcSpace'' of
        Inl e \<Rightarrow> Inl e
      | Inr spaces_all \<Rightarrow>
          Inr (card (snd (collect_classrooms (entities f) ids spaces_all ([], {})))))"

definition floors_verdict_of :: "nat \<Rightarrow> int \<Rightarrow> floors_verdict" where
  "floors_verdict_of n max_allowed =
     (if int n \<le> max_allowed then Standard n max_allowed
      else Exceeds (int n - max_allowed) n max_allowed)"

definition render_floors_with_classrooms ::
  "ifc_file \<Rightarrow> (nat \<Rightarrow> idseq \<times> idseq) \<Rightarrow> int \<Rightarrow> py_error + floors_verdict" where
  "render_floors_with_classrooms f ids max_allowed =
     (case count_levels f ids of
        Inl e \<Rightarrow> Inl e
      | Inr n \<Rightarrow> Inr (floors_verdict_of n max_allowed))"

section \<open>Classroom-count rule\<close>

definition FIXED_ROOM_TERM :: string where
  "FIXED_ROOM_TERM = ''classroom''"

definition SCHOOL_TYPES :: "(string \<times> string \<times> nat list) list" where
  "SCHOOL_TYPES =
     [(''1'', ''first 3-year school'', [6, 9, 12, 15]),
      (''2'', ''second 3-year school'', [6, 9, 12, 15]),
      (''3'', ''mixed type'', [6, 12, 18])]"

text \<open>\<^verbatim>\<open>_norm\<close> of \<^verbatim>\<open>class_count_checker.py\<close>, on a string.\<close>

definition norm_casefold :: "string \<Rightarrow> string" where
  "norm_casefold s = lower (strip s)"

text \<open>\<^verbatim>\<open>_get_pset_value\<close>: the entry when it is a string that is not blank.\<close>

definition get_pset_value :: "string option \<Rightarrow> string option" where
  "get_pset_value v =
     (case v of None \<Rightarrow> None | Some val \<Rightarrow> if strip val \<noteq> [] then Some val else None)"

definition space_is_classroom :: "entity \<Rightarrow> bool" where
  "space_is_classroom space =
     (let term = lower FIXED_ROOM_TERM;
          fields = [LongName space, Name space, ObjectType space, PredefinedType space,
                    get_pset_value (pset_LongName space), get_pset_value (pset_Name space)]
      in \<exists>v \<in> set fields. case v of None \<Rightarrow> False | Some str \<Rightarrow> norm_casefold str = term)"

definition count_classrooms :: "ifc_file \<Rightarrow> nat" where
  "count_classrooms f =
     (let spaces = (case by_type f ''IfcSpace'' of Inl _ \<Rightarrow> [] | Inr xs \<Rightarrow> xs)
      in sum_list (map (\<lambda>s. 1) (filter (\<lambda>(i, s). space_is_classroom s) spaces)))"

datatype class_verdict =
  Result_OK nat string
| Result_Not_OK nat string "nat list"

text \<open>
  \<^verbatim>\<open>render_class_count_checker\<close> for the selected key of \<^verbatim>\<open>SCHOOL_TYPES\<close>; a key outside
  the table makes the dictionary lookup raise.
\<close>

definition render_class_count_checker :: "ifc_file \<Rightarrow> string \<Rightarrow> py_error + class_verdict" where
  "render_class_count_checker f sel_key =
     (case map_of SCHOOL_TYPES sel_key of
        None \<Rightarrow> Inl KeyError
      | Some (label, standards) \<Rightarrow>
          (let count = count_classrooms f in
           if count \<in> set standards then Inr (Result_OK count label)
           else Inr (Result_Not_OK count label standards)))"

section \<open>Vocabulary and example models for the rules\<close>

subsection \<open>Example unit assignments\<close>

text \<open>
  Millimetres beside an area unit; kilometres; feet; and an assignment that lists a
  length unit in kilometres before one in feet.
\<close>

definition millimetre_file :: ifc_file where
  "millimetre_file =
     \<lparr>entities = [], by_type_raises = False,
      unit_assignments =
        [Inr [\<lparr>UnitType = Str ''AREAUNIT'', unit_Name = Str ''SQUARE_METRE'', Prefix = PyNone\<rparr>,
              \<lparr>UnitType = Str ''LENGTHUNIT'', unit_Name = Str ''METRE'', Prefix = Str ''MILLI''\<rparr>]]\<rparr>"

definition kilometre_file :: ifc_file where
  "kilometre_file =
     \<lparr>entities = [], by_type_raises = False,
      unit_assignments =
        [Inr [\<lparr>UnitType = Str ''LENGTHUNIT'', unit_Name = Str ''METRE'', Prefix = Str ''KILO''\<rparr>]]\<rparr>"

definition foot_file :: ifc_file where
  "foot_file =
     \<lparr>entities = [], by_type_raises = False,
      unit_assignments =
        [Inr [\<lparr>UnitType = Str ''LENGTHUNIT'', unit_Name = Str ''FOOT'', Prefix = Absent\<rparr>]]\<rparr>"

definition kilometre_then_foot_file :: ifc_file where
  "kilometre_then_foot_file =
     \<lparr>entities = [], by_type_raises = False,
      unit_assignments =
        [Inr [\<lparr>UnitType = Str ''LENGTHUNIT'', unit_Name = Str ''METRE'', Prefix = Str ''KILO''\<rparr>,
              \<lparr>UnitType = Str ''LENGTHUNIT'', unit_Name = Str ''FOOT'', Prefix = Absent\<rparr>]]\<rparr>"

subsection \<open>Levels and example schools\<close>

text \<open>
  The distinct storey names among the classroom records, stated over the model rather
  than by the loop: the names recorded for the spaces whose name contains ``classroom''.
\<close>

definition classroom_storey_names :: "ifc_file \<Rightarrow> (nat \<Rightarrow> idseq \<times> idseq) \<Rightarrow> string set" where
  "classroom_storey_names f ids =
     (\<lambda>(i, sp). storey_name_of (entities f) (ids i) i) `
       {p \<in> set (entities f). ifc_class (snd p) = ''IfcSpace'' \<and> is_classroom_space (snd p)}"

text \<open>Four classrooms on four storeys; one classroom on a storey and one outside any.\<close>

definition school4 :: ifc_file where
  "school4 =
     \<lparr>entities =
        [(1, blank\<lparr>ifc_class := ''IfcBuildingStorey'', Name := Some ''Level 1''\<rparr>),
         (2, blank\<lparr>ifc_class := ''IfcBuildingStorey'', Name := Some ''Level 2''\<rparr>),
         (3, blank\<lparr>ifc_class := ''IfcBuildingStorey'', Name := Some ''Level 3''\<rparr>),
         (4, blank\<lparr>ifc_class := ''IfcBuildingStorey'', Name := Some ''Level 4''\<rparr>),
         (11, blank\<lparr>LongName := Some ''Classroom'', Name := Some ''101'', Decomposes := [1]\<rparr>),
         (12, blank\<lparr>LongName := Some ''Classroom'', Name := Some ''201'', Decomposes := [2]\<rparr>),
         (13, blank\<lparr>LongName := Some ''Classroom'', Name := Some ''301'', Decomposes := [3]\<rparr>),
         (14, blank\<lparr>LongName := Some ''Classroom'', Name := Some ''401'', Decomposes := [4]\<rparr>)],
      by_type_raises = False, unit_assignments = []\<rparr>"

definition school_unresolved :: ifc_file where
  "school_unresolved =
     \<lparr>entities =
        [(1, blank\<lparr>ifc_class := ''IfcBuildingStorey'', Name := Some ''Level 1''\<rparr>),
         (11, blank\<lparr>LongName := Some ''Classroom'', Name := Some ''101'', Decomposes := [1]\<rparr>),
         (12, blank\<lparr>LongName := Some ''Classroom'', Name := Some ''102''\<rparr>)],
      by_type_raises = False, unit_assignments = []\<rparr>"

text \<open>Every call of the resolver sees three addresses handed out in turn.\<close>

definition recycled_everywhere :: "nat \<Rightarrow> idseq \<times> idseq" where
  "recycled_everywhere i = (recycled_ids, recycled_ids)"

text \<open>A model of \<open>n\<close> spaces with the long name ``Classroom''.\<close>

definition classrooms_file :: "nat \<Rightarrow> ifc_file" where
  "classrooms_file n =
     \<lparr>entities = map (\<lambda>i. (i, blank\<lparr>LongName := Some ''Classroom''\<rparr>)) [0..<n],
      by_type_raises = False, unit_assignments = []\<rparr>"

section \<open>Properties of the storey resolution\<close>

lemma chain_None [simp]: "chain g k None = None"
  by (cases k) simp_all

lemma chain_storey_None [simp]: "\<not> chain_storey g k None"
  by (simp add: chain_storey_def)

lemma chain_storey_0: "chain_storey g 0 (Some n) = is_a_storey g n"
  by (simp add: chain_storey_def)

lemma chain_storey_Suc: "chain_storey g (Suc k) (Some n) = chain_storey g k (decomp_parent g n)"
  by (simp add: chain_storey_def)

lemma reach_from_None [simp]: "\<not> reach_from g ids seen k None s"
  by (simp add: reach_from_def)

lemma reach_from_here:
  assumes st: "is_a_storey g n"
  shows "reach_from g ids seen k (Some n) s \<longleftrightarrow> ids k \<notin> seen \<and> s = n"
proof
  assume "reach_from g ids seen k (Some n) s"
  then obtain j where j: "chain g j (Some n) = Some s" "\<forall>i<j. \<not> chain_storey g i (Some n)"
     "\<forall>i\<le>j. ids (k + i) \<notin> seen \<union> ids ` {k..<k + i}"
    by (auto simp: reach_from_def)
  have "j = 0"
  proof (rule ccontr)
    assume "j \<noteq> 0"
    then have "\<not> chain_storey g 0 (Some n)" using j(2) by blast
    with st show False by (simp add: chain_storey_0)
  qed
  moreover from j(3) have "ids (k + 0) \<notin> seen \<union> ids ` {k..<k + 0}" by blast
  ultimately show "ids k \<notin> seen \<and> s = n" using j(1) by simp
next
  assume "ids k \<notin> seen \<and> s = n"
  with st show "reach_from g ids seen k (Some n) s"
    unfolding reach_from_def by (intro exI[of _ 0]) simp
qed

lemma range_Suc_split: "{k..<k + Suc i} = insert k {Suc k..<Suc k + i}"
  by auto

lemma reach_from_step:
  assumes ns: "\<not> is_a_storey g n"
  shows "reach_from g ids seen k (Some n) s \<longleftrightarrow>
           ids k \<notin> seen \<and> reach_from g ids (insert (ids k) seen) (Suc k) (decomp_parent g n) s"
proof
  assume "reach_from g ids seen k (Some n) s"
  then obtain j where j: "chain g j (Some n) = Some s" "is_a_storey g s"
      "\<forall>i<j. \<not> chain_storey g i (Some n)"
      "\<forall>i\<le>j. ids (k + i) \<notin> seen \<union> ids ` {k..<k + i}"
    by (auto simp: reach_from_def)
  from j(1,2) ns obtain j' where j': "j = Suc j'" by (cases j) auto
  from j(4) have k0: "ids (k + 0) \<notin> seen \<union> ids ` {k..<k + 0}" by blast
  have a: "\<forall>i<j'. \<not> chain_storey g i (decomp_parent g n)"
  proof (intro allI impI)
    fix i assume "i < j'"
    then have "Suc i < j" using j' by simp
    with j(3) have "\<not> chain_storey g (Suc i) (Some n)" by blast
    then show "\<not> chain_storey g i (decomp_parent g n)" by (simp add: chain_storey_Suc)
  qed
  have b: "\<forall>i\<le>j'. ids (Suc k + i) \<notin> insert (ids k) seen \<union> ids ` {Suc k..<Suc k + i}"
  proof (intro allI impI)
    fix i assume "i \<le> j'"
    then have "Suc i \<le> j" using j' by simp
    with j(4) have "ids (k + Suc i) \<notin> seen \<union> ids ` {k..<k + Suc i}" by blast
    then show "ids (Suc k + i) \<notin> insert (ids k) seen \<union> ids ` {Suc k..<Suc k + i}"
      unfolding range_Suc_split by simp
  qed
  from j(1,2) j' a b have "reach_from g ids (insert (ids k) seen) (Suc k) (decomp_parent g n) s"
    unfolding reach_from_def by (intro exI[of _ j']) simp
  with k0 show "ids k \<notin> seen \<and> reach_from g ids (insert (ids k) seen) (Suc k) (decomp_parent g n) s"
    by simp
next
  assume r: "ids k \<notin> seen \<and> reach_from g ids (insert (ids k) seen) (Suc k) (decomp_parent g n) s"
  then obtain j where j: "chain g j (decomp_parent g n) = Some s" "is_a_storey g s"
      "\<forall>i<j. \<not> chain_storey g i (decomp_parent g n)"
      "\<forall>i\<le>j. ids (Suc k + i) \<notin> insert (ids k) seen \<union> ids ` {Suc k..<Suc k + i}"
    by (auto simp: reach_from_def)
  have a: "\<forall>i<Suc j. \<not> chain_storey g i (Some n)"
  proof (intro allI impI)
    fix i assume "i < Suc j"
    then show "\<not> chain_storey g i (Some n)"
      using ns j(3) by (cases i) (simp_all add: chain_storey_0 chain_storey_Suc)
  qed
  have b: "\<forall>i\<le>Suc j. ids (k + i) \<notin> seen \<union> ids ` {k..<k + i}"
  proof (intro allI impI)
    fix i assume i: "i \<le> Suc j"
    show "ids (k + i) \<notin> seen \<union> ids ` {k..<k + i}"
    proof (cases i)
      case 0
      with r show ?thesis by simp
    next
      case (Suc i')
      with i have "i' \<le> j" by simp
      with j(4) have "ids (Suc k + i') \<notin> insert (ids k) seen \<union> ids ` {Suc k..<Suc k + i'}"
        by blast
      then show ?thesis unfolding Suc range_Suc_split by simp
    qed
  qed
  from j(1,2) a b show "reach_from g ids seen k (Some n) s"
    unfolding reach_from_def by (intro exI[of _ "Suc j"]) simp
qed

lemma climb_Some_iff:
  "fst (climb g ids seen st k) = Some s \<longleftrightarrow> reach_from g ids seen k st s"
proof (induction g ids seen st k rule: climb.induct)
  case (1 g ids seen k)
  then show ?case by simp
next
  case (2 g ids seen n k)
  show ?case
  proof (cases "ids k \<in> seen")
    case True
    then show ?thesis
      by (cases "is_a_storey g n") (simp_all add: reach_from_here reach_from_step)
  next
    case False
    show ?thesis
    proof (cases "is_a_storey g n")
      case True
      with False show ?thesis by (auto simp: reach_from_here)
    next
      case st: False
      with False "2.IH" show ?thesis by (simp add: reach_from_step)
    qed
  qed
qed

lemma distinct_map_upt_iff:
  "distinct (map f [0..<n]) \<longleftrightarrow> (\<forall>i<n. f i \<notin> f ` {0..<i})"
proof (induction n)
  case 0
  then show ?case by simp
next
  case (Suc n)
  have "(\<forall>i<Suc n. f i \<notin> f ` {0..<i}) \<longleftrightarrow> (\<forall>i<n. f i \<notin> f ` {0..<i}) \<and> f n \<notin> f ` {0..<n}"
    by (auto simp: less_Suc_eq)
  with Suc show ?case by auto
qed

lemma reach_from_empty: "reach_from g ids {} 0 st s \<longleftrightarrow> reaches g ids st s"
  unfolding reach_from_def reaches_def distinct_map_upt_iff
  by (simp add: less_Suc_eq_le)

lemma walk_Some_iff: "walk g ids st = Some s \<longleftrightarrow> reaches g ids st s"
  by (simp add: walk_def climb_Some_iff reach_from_empty)


lemma walk_None_iff: "walk g ids st = None \<longleftrightarrow> (\<forall>t. \<not> reaches g ids st t)"
  by (metis walk_Some_iff option.exhaust option.distinct(1))

lemma reaches_chain_storey: "reaches g ids st s \<Longrightarrow> \<exists>k. chain_storey g k st"
proof -
  assume "reaches g ids st s"
  then obtain j where "chain g j st = Some s" "is_a_storey g s"
    by (auto simp: reaches_def)
  then have "chain_storey g j st" by (simp add: chain_storey_def)
  then show ?thesis ..
qed

lemma walk_no_storey: "\<forall>k. \<not> chain_storey g k st \<Longrightarrow> walk g ids st = None"
  using reaches_chain_storey walk_None_iff by blast

lemma climb_distinct:
  "seen = ids ` {0..<k} \<Longrightarrow> distinct (map ids [0..<k]) \<Longrightarrow>
     k \<le> snd (climb g ids seen st k) \<and> distinct (map ids [0..<snd (climb g ids seen st k)])"
proof (induction g ids seen st k rule: climb.induct)
  case (1 g ids seen k)
  then show ?case by simp
next
  case (2 g ids seen n k)
  show ?case
  proof (cases "ids k \<in> seen")
    case True
    with "2.prems" show ?thesis by simp
  next
    case False
    have s: "insert (ids k) seen = ids ` {0..<Suc k}"
      using "2.prems"(1) by (auto simp: less_Suc_eq)
    have d: "distinct (map ids [0..<Suc k])"
      using "2.prems" False by simp
    show ?thesis
    proof (cases "is_a_storey g n")
      case True
      with False d show ?thesis by simp
    next
      case st: False
      from "2.IH"[OF False st s d] False st show ?thesis by simp
    qed
  qed
qed

lemma visited_distinct: "distinct (map ids [0..<visited g ids st])"
  using climb_distinct[of "{}" ids 0 g st] by (simp add: visited_def)

lemma visited_le_addresses: "visited g ids st \<le> 2 ^ 64"
proof -
  have "card (set (map ids [0..<visited g ids st])) = length (map ids [0..<visited g ids st])"
    by (rule distinct_card) (rule visited_distinct)
  then have "visited g ids st = card (set (map ids [0..<visited g ids st]))"
    by (simp only: length_map length_upt diff_zero)
  also have "\<dots> \<le> card (UNIV :: addr set)"
    by (intro card_mono) simp_all
  also have "\<dots> = 2 ^ 64" by (simp add: card_word)
  finally show ?thesis .
qed

lemma visited_repeat: "a < b \<Longrightarrow> ids a = ids b \<Longrightarrow> visited g ids st \<le> b"
proof (rule ccontr)
  assume ab: "a < b" "ids a = ids b" and "\<not> visited g ids st \<le> b"
  then have lt: "b < visited g ids st" by simp
  from visited_distinct[of ids g st] have "inj_on ids {0..<visited g ids st}"
    by (simp add: distinct_map)
  then have "a = b"
    using ab(2) by (rule inj_onD) (use ab(1) lt in simp_all)
  with ab(1) show False by simp
qed

lemma chain_add: "chain g (a + b) st = chain g b (chain g a st)"
  by (induction a arbitrary: st) (auto split: option.splits)

lemma chain_cycle_mod:
  assumes cyc: "chain g (Suc j) (Some n) = Some n"
  shows "chain g m (Some n) = chain g (m mod Suc j) (Some n)"
proof (induction m rule: less_induct)
  case (less m)
  show ?case
  proof (cases "m < Suc j")
    case True
    then show ?thesis by simp
  next
    case False
    then obtain m' where m': "m = Suc j + m'" by (metis le_Suc_ex not_less)
    have "chain g m (Some n) = chain g m' (Some n)"
      unfolding m' chain_add cyc ..
    also have "\<dots> = chain g (m' mod Suc j) (Some n)"
      using less.IH[of m'] m' by simp
    also have "m' mod Suc j = m mod Suc j"
      unfolding m' by (metis mod_add_self1)
    finally show ?thesis .
  qed
qed

lemma cycle_no_storey:
  assumes reach: "chain g i st = Some n"
      and cyc: "chain g (Suc j) (Some n) = Some n"
      and nost: "\<forall>k<i + Suc j. \<not> chain_storey g k st"
  shows "\<not> chain_storey g k st"
proof (cases "k < i")
  case True
  with nost show ?thesis by simp
next
  case False
  then obtain d where d: "k = i + d" by (metis le_Suc_ex not_less)
  have "chain g k st = chain g d (Some n)"
    unfolding d chain_add reach ..
  also have "\<dots> = chain g (d mod Suc j) (Some n)"
    by (rule chain_cycle_mod[OF cyc])
  also have "\<dots> = chain g (i + d mod Suc j) st"
    unfolding chain_add reach ..
  finally have "chain_storey g k st = chain_storey g (i + d mod Suc j) st"
    by (simp add: chain_storey_def)
  moreover have "i + d mod Suc j < i + Suc j"
    by simp
  ultimately show ?thesis using nost by blast
qed

lemma map_of_line_graph:
  "map_of (line_graph N) n = (if n < N then Some (blank\<lparr>Decomposes := [Suc n]\<rparr>) else None)"
proof -
  have "map_of (map (\<lambda>i. (i, f i)) xs) n = (if n \<in> set xs then Some (f n) else None)"
    for f :: "nat \<Rightarrow> entity" and xs
    by (induction xs) auto
  then show ?thesis by (simp add: line_graph_def)
qed


lemma fresh_ids_notin: "i < 2 ^ 64 \<Longrightarrow> fresh_ids i \<notin> fresh_ids ` {0..<i}"
proof
  assume i: "i < 2 ^ 64" and "fresh_ids i \<in> fresh_ids ` {0..<i}"
  then obtain j where j: "j < i" "(of_nat i :: addr) = of_nat j"
    by (auto simp: fresh_ids_def)
  from j(2) have "unat (of_nat i :: addr) = unat (of_nat j :: addr)" by simp
  moreover have "unat (of_nat i :: addr) = i" using i by (simp add: unat_of_nat)
  moreover have "unat (of_nat j :: addr) = j" using i j(1) by (simp add: unat_of_nat)
  ultimately show False using j(1) by simp
qed

lemma climb_line_graph:
  "i \<le> N \<Longrightarrow> N < 2 ^ 64 \<Longrightarrow>
     snd (climb (line_graph N) fresh_ids (fresh_ids ` {0..<i}) (Some i) i) = Suc N"
proof (induction "N - i" arbitrary: i)
  case 0
  then have "i = N" by simp
  with 0 show ?case
    by (simp add: is_a_storey_def decomp_parent_def map_of_line_graph fresh_ids_notin)
next
  case (Suc d)
  then have lt: "i < N" by simp
  have ins: "insert (fresh_ids i) (fresh_ids ` {0..<i}) = fresh_ids ` {0..<Suc i}"
    by (auto simp: less_Suc_eq)
  have ni: "fresh_ids i \<notin> fresh_ids ` {0..<i}"
    using lt Suc.prems by (intro fresh_ids_notin) simp
  have "snd (climb (line_graph N) fresh_ids (fresh_ids ` {0..<i}) (Some i) i)
        = snd (climb (line_graph N) fresh_ids (fresh_ids ` {0..<Suc i}) (Some (Suc i)) (Suc i))"
    using lt ni by (simp add: is_a_storey_def decomp_parent_def map_of_line_graph blank_def ins)
  also have "\<dots> = Suc N"
    using Suc lt by (intro Suc.hyps(1)) simp_all
  finally show ?case .
qed

lemma visited_line_graph: "N < 2 ^ 64 \<Longrightarrow> visited (line_graph N) fresh_ids (Some 0) = Suc N"
  using climb_line_graph[of 0 N] by (simp add: visited_def)

subsection \<open>Depth of a walk\<close>

text \<open>
  Claim C3, as stated: every walk is depth-bounded by a fixed cap that does not depend on
  the visited set, so that the number of nodes visited never exceeds the cap. A cap fixed
  in the source would bound the visits whatever addresses the objects receive. The source
  has none: on a chain of \<open>cap\<close> entities without a storey, with objects whose addresses
  all differ, the walk visits \<open>cap + 1\<close> nodes. So no number below the number of
  addresses bounds the visits of all walks.
\<close>

theorem walk_depth_cap_counterexample:
  "\<not> (\<exists>cap. cap < 2 ^ 64 \<and> (\<forall>g ids st. visited g ids st \<le> cap))"
proof
  assume "\<exists>cap. cap < 2 ^ 64 \<and> (\<forall>g ids st. visited g ids st \<le> cap)"
  then obtain cap where c: "cap < 2 ^ 64" "\<forall>g ids st. visited g ids st \<le> cap" by blast
  then have "visited (line_graph cap) fresh_ids (Some 0) \<le> cap" by blast
  with c(1) show False by (simp add: visited_line_graph)
qed

text \<open>
  Claim C3, amended: a walk is bounded by its visited set only. The objects it visits have
  pairwise distinct addresses, so it visits at most as many nodes as there are addresses,
  and it ends at the latest when an object receives an address that an earlier object of
  the walk had. There is no cap that is independent of the visited set.
\<close>

theorem walk_bounded_by_identities_only:
  "distinct (map ids [0..<visited g ids st]) \<and>
   visited g ids st \<le> 2 ^ 64 \<and>
   (\<forall>a b. a < b \<and> ids a = ids b \<longrightarrow> visited g ids st \<le> b)"
  using visited_distinct visited_le_addresses visited_repeat by blast

lemma recycled_ids_simps:
  "recycled_ids 0 = 0" "recycled_ids (Suc 0) = 1" "recycled_ids (Suc (Suc 0)) = 2"
  "recycled_ids 3 = 0" "recycled_ids (Suc (Suc (Suc 0))) = 0"
  by (simp_all add: recycled_ids_def)

lemma visited_deep: "visited deep_model recycled_ids (decomp_parent deep_model 1) = 3"
  by (simp add: visited_def deep_model_def blank_def decomp_parent_def is_a_storey_def
        recycled_ids_simps)

text \<open>
  With three addresses handed out in turn, the walk above space 1 of the deep hierarchy
  visits 2, 3 and 4 and stops at the storey 5 without testing it: the object for 5 has
  the address the object for 2 had.
\<close>

theorem walk_bounded_by_identities_only_witness:
  "(0 :: nat) < 3 \<and> recycled_ids 0 = recycled_ids 3 \<and>
   visited deep_model recycled_ids (decomp_parent deep_model 1) \<le> 3 \<and>
   walk deep_model recycled_ids (decomp_parent deep_model 1) = None"
proof -
  have e: "recycled_ids 0 = recycled_ids 3" by (simp add: recycled_ids_simps)
  have w: "walk deep_model recycled_ids (decomp_parent deep_model 1) = None"
    by (simp add: walk_def deep_model_def blank_def decomp_parent_def is_a_storey_def
        recycled_ids_simps)
  from walk_bounded_by_identities_only[of recycled_ids deep_model "decomp_parent deep_model 1"] e
  have "visited deep_model recycled_ids (decomp_parent deep_model 1) \<le> 3"
    by (metis zero_less_numeral)
  with e w show ?thesis by simp
qed

subsection \<open>Order and edge kinds of the two attempts\<close>





subsection \<open>Cyclic hierarchies\<close>

text \<open>
  Claim C5: when the chain a walk follows from its start \<open>st\<close> runs into a cycle (node
  \<open>n\<close>, reached after \<open>i\<close> steps, is its own ancestor after \<open>j + 1\<close> steps) with no
  storey on the path, the walk ends and finds no storey, whatever addresses its objects
  receive. If that walk is one attempt of the resolver and the other attempt has no storey
  on its chain either, the resolver returns no storey. The walk is a total function: it
  ends because every round adds an address to the visited set and there are finitely many
  addresses, so it neither loops nor raises.
\<close>

theorem cyclic_hierarchy_no_storey:
  assumes reach: "chain g i st = Some n"
      and cyc: "chain g (Suc j) (Some n) = Some n"
      and nost: "\<forall>k<i + Suc j. \<not> chain_storey g k st"
  shows "walk g ids st = None \<and> visited g ids st \<le> 2 ^ 64 \<and>
         (st = decomp_parent g space \<and> (\<forall>k. \<not> chain_storey g k (get_container g space))
            \<longrightarrow> storey_of_space g ids ids2 space = None) \<and>
         (st = get_container g space \<and> (\<forall>k. \<not> chain_storey g k (decomp_parent g space))
            \<longrightarrow> storey_of_space g ids1 ids space = None)"
proof -
  have "\<forall>k. \<not> chain_storey g k st"
    using cycle_no_storey[OF reach cyc nost] by blast
  then have w: "walk g ids st = None"
    by (rule walk_no_storey)
  have "storey_of_space g ids ids2 space = None"
    if "st = decomp_parent g space" "\<forall>k. \<not> chain_storey g k (get_container g space)"
    using that w walk_no_storey[of g "get_container g space" ids2]
    by (simp add: storey_of_space_def)
  moreover have "storey_of_space g ids1 ids space = None"
    if "st = get_container g space" "\<forall>k. \<not> chain_storey g k (decomp_parent g space)"
    using that w walk_no_storey[of g "decomp_parent g space" ids1]
    by (simp add: storey_of_space_def)
  ultimately show ?thesis
    using w visited_le_addresses by blast
qed

text \<open>
  The cycle of the specification: A decomposes from B and B decomposes from A. With three
  addresses handed out in turn the walk above A visits B, A and B again and then stops;
  with addresses that all differ it stops when the addresses are used up. Both return no
  storey.
\<close>

theorem cyclic_hierarchy_no_storey_witness:
  "walk cyclic_model recycled_ids (decomp_parent cyclic_model 1) = None \<and>
   storey_of_space cyclic_model recycled_ids recycled_ids 1 = None \<and>
   storey_of_space cyclic_model fresh_ids fresh_ids 1 = None \<and>
   visited cyclic_model recycled_ids (decomp_parent cyclic_model 1) = 3"
proof -
  have d: "decomp_parent cyclic_model 1 = Some 2" "decomp_parent cyclic_model 2 = Some 1"
    "decomp_parent cyclic_model (Suc 0) = Some 2"
    by (simp_all add: cyclic_model_def blank_def decomp_parent_def)
  have s: "\<not> is_a_storey cyclic_model 1" "\<not> is_a_storey cyclic_model 2"
    "\<not> is_a_storey cyclic_model (Suc 0)"
    by (simp_all add: cyclic_model_def blank_def is_a_storey_def)
  have h1: "chain cyclic_model 0 (decomp_parent cyclic_model 1) = Some 2"
    by (simp add: d)
  have h2: "chain cyclic_model (Suc (Suc 0)) (Some 2) = Some 2"
    by (simp add: d)
  have h3: "\<forall>k<0 + Suc (Suc 0). \<not> chain_storey cyclic_model k (decomp_parent cyclic_model 1)"
    by (simp add: less_Suc_eq chain_storey_def d s)
  have h4: "\<forall>k. \<not> chain_storey cyclic_model k (get_container cyclic_model 1)"
    by (simp add: cyclic_model_def blank_def get_container_def)
  have v: "visited cyclic_model recycled_ids (decomp_parent cyclic_model 1) = 3"
    by (simp add: visited_def d s recycled_ids_simps)
  from cyclic_hierarchy_no_storey[OF h1 h2 h3, of recycled_ids 1 recycled_ids]
       cyclic_hierarchy_no_storey[OF h1 h2 h3, of fresh_ids 1 fresh_ids] h4 v
  show ?thesis by blast
qed

section \<open>Properties of the unit scale\<close>

lemma entry_scale_eq:
  "entry_scale u = (if is_length_unit u then unit_scale u else None)"
proof (cases "UnitType u")
  case Absent
  then show ?thesis
    by (simp add: entry_scale_def is_length_unit_def str_attr_def upper_def upper_char_def
          endswith_def)
next
  case PyNone
  then show ?thesis
    by (simp add: entry_scale_def is_length_unit_def str_attr_def upper_def upper_char_def
          endswith_def)
next
  case (Str t)
  then show ?thesis
    by (simp add: entry_scale_def is_length_unit_def str_attr_def unit_scale_def unit_nm_def
          unit_pref_def spec_table_def is_metre_def is_foot_def Let_def split: attr.splits)
qed

lemma scan_units_first_entry:
  "scan_units units = (case first_entry units of Some r \<Rightarrow> r | None \<Rightarrow> 1)"
  by (induction units) (simp_all add: entry_scale_eq split: option.splits)

lemma spec_table_pos: "spec_table nm pref = Some r \<Longrightarrow> 0 < r"
  by (auto simp: spec_table_def split: if_splits)

lemma entry_scale_pos: "entry_scale u = Some r \<Longrightarrow> 0 < r"
  by (auto simp: entry_scale_def split: attr.splits if_splits dest: spec_table_pos)

lemma first_entry_pos: "first_entry units = Some r \<Longrightarrow> 0 < r"
  by (induction units) (auto split: option.splits dest: entry_scale_pos)

text \<open>
  Claim C6, as stated: for every model, an unrecognised combination of name and prefix
  makes the resolver return 1. A unit assignment that lists a length unit in kilometres
  (metre with the prefix kilo, which is not in the table) before a length unit in feet
  gives 0.3048: the loop does not stop at the unrecognised length unit but goes on to the
  next unit.
\<close>

theorem unrecognised_length_unit_counterexample:
  "entry_scale \<lparr>UnitType = Str ''LENGTHUNIT'', unit_Name = Str ''METRE'', Prefix = Str ''KILO''\<rparr>
     = None \<and>
   detect_length_scale_meters kilometre_then_foot_file = 3048 / 10000"
  by (simp add: detect_length_scale_meters_def kilometre_then_foot_file_def is_length_unit_def
       unit_scale_def unit_nm_def unit_pref_def is_metre_def is_foot_def str_attr_def
       upper_def upper_char_def endswith_def entry_scale_def spec_table_def)

text \<open>
  Claim C6, amended: for every model, the resolver returns the table value of the first
  unit of the first unit assignment that is a length unit with a name and prefix of the
  table: 1 for metre without prefix, 0.001 for metre with milli, 0.01 with centi, 0.1 with
  deci, and 0.3048 for foot. Length units with other combinations are skipped. It returns
  1 when there is no such unit: the type enumeration raises, the model has no unit
  assignment, reading the units raises, or no unit of the assignment is in the table. The
  scale is strictly positive in every case.
\<close>

theorem detect_length_scale_first_recognised:
  "detect_length_scale_meters f =
     (if by_type_raises f then 1
      else case unit_assignments f of
             [] \<Rightarrow> 1
           | Inl e # rest \<Rightarrow> 1
           | Inr units # rest \<Rightarrow> (case first_entry units of None \<Rightarrow> 1 | Some r \<Rightarrow> r)) \<and>
   0 < detect_length_scale_meters f"
proof -
  have eq: "detect_length_scale_meters f =
     (if by_type_raises f then 1
      else case unit_assignments f of
             [] \<Rightarrow> 1
           | Inl e # rest \<Rightarrow> 1
           | Inr units # rest \<Rightarrow> (case first_entry units of None \<Rightarrow> 1 | Some r \<Rightarrow> r))"
    by (simp add: detect_length_scale_meters_def scan_units_first_entry
          split: list.splits sum.splits option.splits)
  have "0 < detect_length_scale_meters f"
    unfolding eq
    by (auto split: list.splits sum.splits option.splits dest: first_entry_pos)
  with eq show ?thesis by blast
qed

lemma entry_examples:
  "entry_scale \<lparr>UnitType = Str ''LENGTHUNIT'', unit_Name = Str ''METRE'', Prefix = Str ''MILLI''\<rparr>
     = Some (1 / 1000)"
  "entry_scale \<lparr>UnitType = Str ''LENGTHUNIT'', unit_Name = Str ''METRE'', Prefix = Str ''KILO''\<rparr>
     = None"
  "entry_scale \<lparr>UnitType = Str ''LENGTHUNIT'', unit_Name = Str ''FOOT'', Prefix = Absent\<rparr>
     = Some (3048 / 10000)"
  "entry_scale \<lparr>UnitType = Str ''AREAUNIT'', unit_Name = Str ''SQUARE_METRE'', Prefix = PyNone\<rparr>
     = None"
  by (simp_all add: entry_scale_def spec_table_def upper_def upper_char_def endswith_def)

theorem detect_length_scale_first_recognised_witness:
  "detect_length_scale_meters millimetre_file = 1 / 1000 \<and>
   detect_length_scale_meters foot_file = 3048 / 10000 \<and>
   detect_length_scale_meters kilometre_file = 1 \<and>
   detect_length_scale_meters kilometre_then_foot_file = 3048 / 10000 \<and>
   detect_length_scale_meters \<lparr>entities = [], by_type_raises = True, unit_assignments = []\<rparr> = 1"
proof -
  note t = detect_length_scale_first_recognised
  from t[of millimetre_file]
  have 1: "detect_length_scale_meters millimetre_file = 1 / 1000"
    by (simp add: millimetre_file_def entry_examples)
  from t[of foot_file]
  have 2: "detect_length_scale_meters foot_file = 3048 / 10000"
    by (simp add: foot_file_def entry_examples)
  from t[of kilometre_file]
  have 3: "detect_length_scale_meters kilometre_file = 1"
    by (simp add: kilometre_file_def entry_examples)
  from t[of kilometre_then_foot_file]
  have 4: "detect_length_scale_meters kilometre_then_foot_file = 3048 / 10000"
    by (simp add: kilometre_then_foot_file_def entry_examples)
  from t[of "\<lparr>entities = [], by_type_raises = True, unit_assignments = []\<rparr>"]
  have 5: "detect_length_scale_meters \<lparr>entities = [], by_type_raises = True, unit_assignments = []\<rparr> = 1"
    by simp
  from 1 2 3 4 5 show ?thesis by blast
qed

section \<open>Properties of the parking rule\<close>

subsection \<open>Double-precision results for the examples\<close>

lemma round_half_even_of_int [simp]: "round_half_even (of_int m) = m"
  by (simp add: round_half_even_def)

lemma fl_at:
  assumes "2 powr of_int e \<le> \<bar>x\<bar>" "\<bar>x\<bar> < 2 powr of_int (e + 1)"
  shows "fl x = of_int (round_half_even (x * 2 powr of_int (52 - e))) * 2 powr of_int (e - 52)"
proof -
  have pos: "0 < \<bar>x\<bar>" using assms(1) by (smt (verit) powr_gt_zero)
  then have nz: "x \<noteq> 0" by simp
  have "\<lfloor>log 2 \<bar>x\<bar>\<rfloor> = e"
    using assms pos by (simp add: floor_log_eq_powr_iff)
  with nz show ?thesis by (simp add: fl_def)
qed

lemma fl_of_int:
  assumes "\<bar>n\<bar> < 2 ^ 53"
  shows "fl (of_int n) = of_int n"
proof (cases "n = 0")
  case True
  then show ?thesis by (simp add: fl_def)
next
  case False
  define e where "e = \<lfloor>log 2 \<bar>of_int n :: real\<bar>\<rfloor>"
  have "1 \<le> \<bar>n\<bar>" using False by simp
  then have ge1: "1 \<le> \<bar>of_int n :: real\<bar>"
    by (simp flip: of_int_abs)
  then have e0: "0 \<le> e" unfolding e_def by simp
  have "\<bar>of_int n :: real\<bar> < 2 ^ 53"
    using assms by (metis of_int_abs of_int_less_numeral_power_cancel_iff)
  then have "log 2 \<bar>of_int n :: real\<bar> < 53"
    using ge1 by (simp add: log_less_iff powr_numeral)
  then have e52: "e \<le> 52" unfolding e_def by linarith
  define m where "m = nat (52 - e)"
  have p: "2 powr of_int (52 - e) = (2 :: real) ^ m"
    using e52 powr_real_of_int[of "2 :: real" "52 - e"] by (simp add: m_def)
  have "of_int n * (2 :: real) ^ m = of_int (n * 2 ^ m)" by simp
  then have r: "round_half_even (of_int n * 2 powr of_int (52 - e)) = n * 2 ^ m"
    unfolding p by (simp only: round_half_even_of_int)
  have q: "(2 :: real) ^ m * 2 powr of_int (e - 52) = 1"
  proof -
    have "(2 :: real) ^ m * 2 powr of_int (e - 52) = 2 powr of_int (52 - e) * 2 powr of_int (e - 52)"
      by (simp only: p)
    also have "\<dots> = 2 powr (of_int (52 - e) + of_int (e - 52))"
      by (simp only: powr_add)
    also have "of_int (52 - e) + of_int (e - 52) = (0 :: real)" by simp
    finally show ?thesis by simp
  qed
  have "fl (of_int n) = of_int (n * 2 ^ m) * 2 powr of_int (e - 52)"
    using False r by (simp add: fl_def e_def[symmetric] Let_def)
  also have "\<dots> = of_int n * ((2 :: real) ^ m * 2 powr of_int (e - 52))"
    by simp
  finally have "fl (of_int n) = of_int n * ((2 :: real) ^ m * 2 powr of_int (e - 52))" .
  then show ?thesis unfolding q by simp
qed

lemma fl_third: "fl (1 / 3) = 6004799503160661 / 18014398509481984"
proof -
  have "fl (1 / 3) = of_int (round_half_even (1 / 3 * 2 powr of_int (52 - (-2)))) * 2 powr of_int (-2 - 52)"
    by (rule fl_at) (simp_all add: powr_minus_divide)
  also have "(1 / 3 :: real) * 2 powr of_int (52 - (-2)) = 18014398509481984 / 3"
    by (simp add: powr_numeral)
  also have "round_half_even (18014398509481984 / 3) = 6004799503160661"
    by (simp add: round_half_even_def Let_def)
  also have "(2::real) powr of_int (-2 - 52) = 1 / 2 ^ 54"
    by (simp add: powr_minus_divide powr_numeral)
  finally show ?thesis by simp
qed

lemma fl_nine_thirds: "fl (54043195528445949 / 18014398509481984) = 3"
proof -
  have "fl (54043195528445949 / 18014398509481984) =
        of_int (round_half_even (54043195528445949 / 18014398509481984 * 2 powr of_int (52 - 1))) * 2 powr of_int (1 - 52)"
    by (rule fl_at) (simp_all add: powr_numeral)
  also have "(54043195528445949 / 18014398509481984 :: real) * 2 powr of_int (52 - 1) = 54043195528445949 / 8"
    by (simp add: powr_numeral)
  also have "round_half_even (54043195528445949 / 8) = 6755399441055744"
    by (simp add: round_half_even_def Let_def)
  also have "(2::real) powr of_int (1 - 52) = 1 / 2 ^ 51"
    by (simp add: powr_minus_divide powr_numeral)
  finally show ?thesis by simp
qed

lemma fl_41_21: "fl (41 / 21) = 8792742129628111 / 4503599627370496"
proof -
  have "fl (41 / 21) = of_int (round_half_even (41 / 21 * 2 powr of_int (52 - 0))) * 2 powr of_int (0 - 52)"
    by (rule fl_at) simp_all
  also have "(41 / 21 :: real) * 2 powr of_int (52 - 0) = 184647584722190336 / 21"
    by (simp add: powr_numeral)
  also have "round_half_even (184647584722190336 / 21) = 8792742129628111"
    by (simp add: round_half_even_def Let_def)
  also have "(2::real) powr of_int (0 - 52) = 1 / 2 ^ 52"
    by (simp add: powr_minus_divide powr_numeral)
  finally show ?thesis by simp
qed


lemma binary64_sum3: "fsum binary64 [20, 0, 21] = 41"
proof -
  have a: "fl 20 = 20" "fl 41 = 41"
    using fl_of_int[of 20] fl_of_int[of 41] by simp_all
  show ?thesis by (simp add: binary64_def a)
qed

lemma binary64_sum1: "fsum binary64 [84] = 84"
  using fl_of_int[of 84] by (simp add: binary64_def)

lemma binary64_req: "fmul binary64 9 (REQ_PER_STAFF binary64) = 3"
  by (simp add: binary64_def REQ_PER_STAFF_def fl_third fl_nine_thirds)

lemma binary64_div41: "fdiv binary64 41 21 = 8792742129628111 / 4503599627370496"
  by (simp add: binary64_def fl_41_21)

lemma binary64_div84: "fdiv binary64 84 21 = 4"
  using fl_of_int[of 4] by (simp add: binary64_def)

lemma binary64_mul: "fmul binary64 3 21 = 63"
  using fl_of_int[of 63] by (simp add: binary64_def)

lemma binary64_sub41: "fsub binary64 63 41 = 22"
  using fl_of_int[of 22] by (simp add: binary64_def)

lemma binary64_sub84: "fsub binary64 63 84 = - 21"
  using fl_of_int[of "- 21"] by (simp add: binary64_def)

lemma figures_41:
  "parking_check binary64 [Some 20, None, Some 21] 9 =
     \<lparr>total_area = 41, slots_raw = 8792742129628111 / 4503599627370496, slots_int = 1, req_slots = 3,
      ok = False, short_slots = 2, short_area = 22\<rparr>"
  by (simp add: parking_check_def total_area_of_def SLOT_AREA_def Let_def binary64_sum3
        binary64_req binary64_div41 binary64_mul binary64_sub41)

lemma figures_84:
  "parking_check binary64 [Some 84] 9 =
     \<lparr>total_area = 84, slots_raw = 4, slots_int = 4, req_slots = 3,
      ok = True, short_slots = 0, short_area = 0\<rparr>"
  by (simp add: parking_check_def total_area_of_def SLOT_AREA_def Let_def binary64_sum1
        binary64_req binary64_div84 binary64_mul binary64_sub84)

subsection \<open>The figures and the messages\<close>

text \<open>
  Claim C7, as stated: the two shortfall figures are always reported, whether the rule
  passes or fails. With a total area of 84 and a staff count of 9 the rule passes, and the
  success message names the required, the available and the usable whole slots and the
  total area; it shows no shortfall figure.
\<close>

theorem shortfall_not_shown_counterexample:
  "ok (parking_check binary64 [Some 84] 9) \<and>
   parking_message_of (parking_check binary64 [Some 84] 9) = Parking_OK 3 4 4 84 \<and>
   \<not> shows_shortfall (parking_message_of (parking_check binary64 [Some 84] 9))"
  by (simp add: figures_84 parking_message_of_def)

text \<open>
  Claim C7, amended: for every staff count and every list of matched parking rows, the
  rule computes in floating-point arithmetic the total area as the sum of the row areas
  (a row without area counts 0), the required slots as the ceiling of the staff count
  times one third, and the continuous slots as the total area over 21 (0 when the total is
  not positive). It passes exactly if the continuous slots reach the required slots. The
  usable whole slots are the floor of the continuous slots, the shortfall in slots is
  \<open>max 0 (required - usable)\<close> and the shortfall in area is
  \<open>max 0 (required * 21 - total)\<close>; all are computed whether the rule passes or fails. The
  failure message shows both shortfall figures; the success message shows the total area
  instead, and the shortfall in slots is then 0.
\<close>

theorem parking_rule_figures:
  "total_area (parking_check A rows staff_count) =
     fsum A (map (\<lambda>r. case r of None \<Rightarrow> 0 | Some v \<Rightarrow> v) rows) \<and>
   req_slots (parking_check A rows staff_count) = \<lceil>fmul A (of_int staff_count) (fdiv A 1 3)\<rceil> \<and>
   slots_raw (parking_check A rows staff_count) =
     (if total_area (parking_check A rows staff_count) > 0
      then fdiv A (total_area (parking_check A rows staff_count)) 21 else 0) \<and>
   (ok (parking_check A rows staff_count) \<longleftrightarrow>
      slots_raw (parking_check A rows staff_count)
        \<ge> of_int (req_slots (parking_check A rows staff_count))) \<and>
   slots_int (parking_check A rows staff_count) = \<lfloor>slots_raw (parking_check A rows staff_count)\<rfloor> \<and>
   short_slots (parking_check A rows staff_count) =
     max 0 (req_slots (parking_check A rows staff_count)
              - slots_int (parking_check A rows staff_count)) \<and>
   short_area (parking_check A rows staff_count) =
     max 0 (fsub A (fmul A (of_int (req_slots (parking_check A rows staff_count))) 21)
              (total_area (parking_check A rows staff_count))) \<and>
   parking_message_of (parking_check A rows staff_count) =
     (if ok (parking_check A rows staff_count)
      then Parking_OK (req_slots (parking_check A rows staff_count))
             (slots_raw (parking_check A rows staff_count))
             (slots_int (parking_check A rows staff_count))
             (total_area (parking_check A rows staff_count))
      else Parking_Not_OK (req_slots (parking_check A rows staff_count))
             (slots_raw (parking_check A rows staff_count))
             (slots_int (parking_check A rows staff_count))
             (short_slots (parking_check A rows staff_count))
             (short_area (parking_check A rows staff_count))) \<and>
   (ok (parking_check A rows staff_count) \<longrightarrow>
      short_slots (parking_check A rows staff_count) = 0)"
proof -
  have fields:
    "total_area (parking_check A rows staff_count) =
       fsum A (map (\<lambda>r. case r of None \<Rightarrow> 0 | Some v \<Rightarrow> v) rows)"
    "req_slots (parking_check A rows staff_count) = \<lceil>fmul A (of_int staff_count) (fdiv A 1 3)\<rceil>"
    by (simp_all add: parking_check_def total_area_of_def REQ_PER_STAFF_def Let_def)
  have rest:
    "slots_raw (parking_check A rows staff_count) =
     (if total_area (parking_check A rows staff_count) > 0
      then fdiv A (total_area (parking_check A rows staff_count)) 21 else 0)"
    "ok (parking_check A rows staff_count) \<longleftrightarrow>
      slots_raw (parking_check A rows staff_count)
        \<ge> of_int (req_slots (parking_check A rows staff_count))"
    "slots_int (parking_check A rows staff_count) = \<lfloor>slots_raw (parking_check A rows staff_count)\<rfloor>"
    "short_slots (parking_check A rows staff_count) =
     max 0 (req_slots (parking_check A rows staff_count)
              - slots_int (parking_check A rows staff_count))"
    "short_area (parking_check A rows staff_count) =
     max 0 (fsub A (fmul A (of_int (req_slots (parking_check A rows staff_count))) 21)
              (total_area (parking_check A rows staff_count)))"
    by (simp_all add: parking_check_def SLOT_AREA_def Let_def)
  have pass: "short_slots (parking_check A rows staff_count) = 0"
    if "ok (parking_check A rows staff_count)"
  proof -
    from that rest(2)
    have "of_int (req_slots (parking_check A rows staff_count))
            \<le> slots_raw (parking_check A rows staff_count)" by simp
    then have "req_slots (parking_check A rows staff_count)
            \<le> \<lfloor>slots_raw (parking_check A rows staff_count)\<rfloor>"
      by (simp add: le_floor_iff)
    then show ?thesis
      unfolding rest(4) rest(3) by simp
  qed
  show ?thesis
    using fields rest pass by (simp add: parking_message_of_def)
qed

text \<open>
  The boundary case of the specification in double precision: rows of 20, no area and 21
  give a total of 41; with a staff count of 9 the rule requires 3 slots and fails with a
  shortfall of 2 slots and of 22 square metres.
\<close>

theorem parking_rule_figures_witness:
  "total_area (parking_check binary64 [Some 20, None, Some 21] 9) = 41 \<and>
   req_slots (parking_check binary64 [Some 20, None, Some 21] 9) = 3 \<and>
   \<not> ok (parking_check binary64 [Some 20, None, Some 21] 9) \<and>
   slots_int (parking_check binary64 [Some 20, None, Some 21] 9) = 1 \<and>
   parking_message_of (parking_check binary64 [Some 20, None, Some 21] 9) =
     Parking_Not_OK 3 (8792742129628111 / 4503599627370496) 1 2 22 \<and>
   ok (parking_check binary64 [Some 84] 9) \<and>
   short_slots (parking_check binary64 [Some 84] 9) = 0"
proof -
  note a = parking_rule_figures[of binary64 "[Some 20, None, Some 21]" 9]
  note b = parking_rule_figures[of binary64 "[Some 84]" 9]
  have ok84: "ok (parking_check binary64 [Some 84] 9)" by (simp add: figures_84)
  from b ok84 have s: "short_slots (parking_check binary64 [Some 84] 9) = 0" by blast
  from a have m: "parking_message_of (parking_check binary64 [Some 20, None, Some 21] 9) =
     Parking_Not_OK 3 (8792742129628111 / 4503599627370496) 1 2 22"
    by (simp add: figures_41)
  from m ok84 s show ?thesis by (simp add: figures_41)
qed

section \<open>Properties of the floor-distribution rule\<close>

lemma lower_Classroom: "lower ''Classroom'' = ''classroom''"
  by (simp add: lower_def lower_char_def char_of_def bit_Suc_0_iff)

lemma strip_Classroom: "strip ''Classroom'' = ''Classroom''"
  by (simp add: strip_def is_whitespace_def)

lemma render_school4:
  "render_floors_with_classrooms school4 recycled_everywhere 3 = Inr (Exceeds 1 4 3)"
  by (simp add: render_floors_with_classrooms_def count_levels_def by_type_def school4_def
       floors_verdict_of_def is_classroom_space_def norm_lower_def prefer_longname_def str_or_def
       blank_def strip_Classroom lower_Classroom storey_name_of_def storey_of_space_def walk_def
       decomp_parent_def get_container_def is_a_storey_def prefer_storey_name_def strip_def is_whitespace_def Let_def recycled_everywhere_def
       recycled_ids_simps)


lemma collect_classrooms_names:
  "snd (collect_classrooms g ids spaces (records, names)) =
     names \<union> (\<lambda>(i, sp). storey_name_of g (ids i) i) ` {p \<in> set spaces. is_classroom_space (snd p)}"
proof (induction spaces arbitrary: records names)
  case Nil
  then show ?case by simp
next
  case (Cons p spaces)
  obtain i sp where p: "p = (i, sp)" by (cases p)
  show ?case
  proof (cases "is_classroom_space sp")
    case True
    have "{q \<in> set (p # spaces). is_classroom_space (snd q)} =
          insert p {q \<in> set spaces. is_classroom_space (snd q)}"
      using True p by auto
    then show ?thesis
      using True p by (simp add: Cons.IH Let_def)
  next
    case False
    have "{q \<in> set (p # spaces). is_classroom_space (snd q)} =
          {q \<in> set spaces. is_classroom_space (snd q)}"
      using False p by auto
    then show ?thesis
      using False p by (simp add: Cons.IH)
  qed
qed

lemma count_levels_card:
  "\<not> by_type_raises f \<Longrightarrow> count_levels f ids = Inr (card (classroom_storey_names f ids))"
proof -
  assume ok: "\<not> by_type_raises f"
  have "{p \<in> set (filter (\<lambda>(i, e). ifc_class e = ''IfcSpace'') (entities f)).
           is_classroom_space (snd p)} =
        {p \<in> set (entities f). ifc_class (snd p) = ''IfcSpace'' \<and> is_classroom_space (snd p)}"
    by auto
  with ok show ?thesis
    by (simp add: count_levels_def by_type_def collect_classrooms_names
          classroom_storey_names_def)
qed

lemma finite_classroom_storey_names: "finite (classroom_storey_names f ids)"
  by (simp add: classroom_storey_names_def)

text \<open>
  Claim C8: for every model whose spaces can be enumerated, every \<open>max_allowed\<close> and
  whatever addresses the objects of the resolver receive, the
  rule passes exactly if the number of distinct storey names among the classroom records
  is at most \<open>max_allowed\<close>, and on failure it reports that number minus \<open>max_allowed\<close> as
  the excess.
\<close>

theorem floor_distribution_rule:
  assumes "\<not> by_type_raises f"
  shows "render_floors_with_classrooms f ids max_allowed =
           Inr (if int (card (classroom_storey_names f ids)) \<le> max_allowed
                then Standard (card (classroom_storey_names f ids)) max_allowed
                else Exceeds (int (card (classroom_storey_names f ids)) - max_allowed)
                       (card (classroom_storey_names f ids)) max_allowed)"
  using assms
  by (simp add: render_floors_with_classrooms_def count_levels_card floors_verdict_of_def)

text \<open>Classrooms on 4 distinct storeys with a limit of 3 fail with an excess of 1.\<close>

theorem floor_distribution_rule_witness:
  "\<not> by_type_raises school4 \<and>
   render_floors_with_classrooms school4 recycled_everywhere 3 = Inr (Exceeds 1 4 3) \<and>
   card (classroom_storey_names school4 recycled_everywhere) = 4"
proof -
  have h: "\<not> by_type_raises school4" by (simp add: school4_def)
  from floor_distribution_rule[OF h, of recycled_everywhere 3] render_school4 h show ?thesis
    by (simp split: if_splits)
qed

text \<open>
  Claim C10: if the storey of at least one classroom space cannot be resolved, the
  placeholder name ``(No storey)'' is among the levels and counts as one level on top of
  the other names. So when the other names alone are exactly at the limit, the placeholder
  makes the rule fail with an excess of 1.
\<close>

theorem unresolved_storey_is_a_level:
  assumes ok: "\<not> by_type_raises f"
      and sp: "(i, sp) \<in> set (entities f)" "ifc_class sp = ''IfcSpace''" "is_classroom_space sp"
      and un: "storey_of_space (entities f) (fst (ids i)) (snd (ids i)) i = None"
  shows "''(No storey)'' \<in> classroom_storey_names f ids \<and>
         count_levels f ids = Inr (Suc (card (classroom_storey_names f ids - {''(No storey)''}))) \<and>
         render_floors_with_classrooms f ids
             (int (card (classroom_storey_names f ids - {''(No storey)''}))) =
           Inr (Exceeds 1 (Suc (card (classroom_storey_names f ids - {''(No storey)''})))
                  (int (card (classroom_storey_names f ids - {''(No storey)''}))))"
proof -
  have "storey_name_of (entities f) (ids i) i = ''(No storey)''"
    using un by (simp add: storey_name_of_def)
  with sp have mem: "''(No storey)'' \<in> classroom_storey_names f ids"
    unfolding classroom_storey_names_def by force
  have c: "card (classroom_storey_names f ids) =
           Suc (card (classroom_storey_names f ids - {''(No storey)''}))"
    using finite_classroom_storey_names mem by (rule card.remove)
  have n: "count_levels f ids = Inr (Suc (card (classroom_storey_names f ids - {''(No storey)''})))"
    using count_levels_card[OF ok] c by simp
  show ?thesis
    using mem n by (simp add: render_floors_with_classrooms_def floors_verdict_of_def)
qed

lemma count_levels_school_unresolved: "count_levels school_unresolved recycled_everywhere = Inr 2"
  by (simp add: count_levels_def by_type_def school_unresolved_def
       is_classroom_space_def norm_lower_def prefer_longname_def str_or_def
       blank_def strip_Classroom lower_Classroom storey_name_of_def storey_of_space_def walk_def
       decomp_parent_def get_container_def is_a_storey_def prefer_storey_name_def strip_def
       is_whitespace_def Let_def)

theorem unresolved_storey_is_a_level_witness:
  "''(No storey)'' \<in> classroom_storey_names school_unresolved recycled_everywhere \<and>
   count_levels school_unresolved recycled_everywhere = Inr 2 \<and>
   render_floors_with_classrooms school_unresolved recycled_everywhere 1 = Inr (Exceeds 1 2 1)"
proof -
  let ?sp = "blank\<lparr>LongName := Some ''Classroom'', Name := Some ''102''\<rparr>"
  let ?n = "card (classroom_storey_names school_unresolved recycled_everywhere - {''(No storey)''})"
  have h1: "\<not> by_type_raises school_unresolved" by (simp add: school_unresolved_def)
  have h2: "(12, ?sp) \<in> set (entities school_unresolved)"
    by (simp add: school_unresolved_def)
  have h3: "ifc_class ?sp = ''IfcSpace''" by (simp add: blank_def)
  have h4: "is_classroom_space ?sp"
    by (simp add: is_classroom_space_def norm_lower_def prefer_longname_def str_or_def blank_def
        strip_Classroom lower_Classroom)
  have h5: "storey_of_space (entities school_unresolved) (fst (recycled_everywhere 12)) (snd (recycled_everywhere 12)) 12 = None"
    by (simp add: school_unresolved_def storey_of_space_def walk_def decomp_parent_def
          get_container_def blank_def recycled_everywhere_def)
  note t = unresolved_storey_is_a_level[of school_unresolved 12 ?sp recycled_everywhere, OF h1 h2 h3 h4 h5]
  from t have mem: "''(No storey)'' \<in> classroom_storey_names school_unresolved recycled_everywhere" by (rule conjunct1)
  from t have "count_levels school_unresolved recycled_everywhere = Inr (Suc ?n)" by blast
  then have n: "?n = 1" unfolding count_levels_school_unresolved by simp
  from t have "render_floors_with_classrooms school_unresolved recycled_everywhere (int ?n) =
                 Inr (Exceeds 1 (Suc ?n) (int ?n))" by blast
  then have "render_floors_with_classrooms school_unresolved recycled_everywhere 1 = Inr (Exceeds 1 2 1)"
    unfolding n by simp
  with mem count_levels_school_unresolved show ?thesis by blast
qed

section \<open>Properties of the classroom-count rule\<close>

lemma count_classrooms_length:
  "count_classrooms f =
     (if by_type_raises f then 0
      else length (filter (\<lambda>p. ifc_class (snd p) = ''IfcSpace'' \<and> space_is_classroom (snd p))
                     (entities f)))"
proof -
  have one: "sum_list (map (\<lambda>s. Suc 0) xs) = length xs" for xs :: "(nat \<times> entity) list"
    by (induction xs) simp_all
  have "filter (\<lambda>(i, s). space_is_classroom s) (filter (\<lambda>(i, e). ifc_class e = ''IfcSpace'') xs)
        = filter (\<lambda>p. ifc_class (snd p) = ''IfcSpace'' \<and> space_is_classroom (snd p)) xs"
    for xs :: "(nat \<times> entity) list"
    by (induction xs) auto
  then show ?thesis
    by (simp add: count_classrooms_def by_type_def one Let_def)
qed

text \<open>
  Claim C9: for every model and every school type of the table, the rule passes exactly
  if the number of spaces classified as classroom is in the permitted counts of that
  school type, and on failure it reports the full list of permitted counts. The count is
  the number of spaces with a name field equal to ``classroom'' (0 when the spaces cannot
  be enumerated); the permitted counts are 6, 12, 18 for type 3 and 6, 9, 12, 15 for
  types 1 and 2.
\<close>

theorem classroom_count_rule:
  assumes "map_of SCHOOL_TYPES sel_key = Some (label, standards)"
  shows "render_class_count_checker f sel_key =
           Inr (if count_classrooms f \<in> set standards
                then Result_OK (count_classrooms f) label
                else Result_Not_OK (count_classrooms f) label standards) \<and>
         count_classrooms f =
           (if by_type_raises f then 0
            else length (filter (\<lambda>p. ifc_class (snd p) = ''IfcSpace'' \<and>
                                      space_is_classroom (snd p)) (entities f))) \<and>
         set standards = (if sel_key = ''3'' then {6, 12, 18} else {6, 9, 12, 15})"
proof -
  have "set standards = (if sel_key = ''3'' then {6, 12, 18} else {6, 9, 12, 15})"
    using assms by (auto simp: SCHOOL_TYPES_def split: if_splits)
  moreover have "render_class_count_checker f sel_key =
           Inr (if count_classrooms f \<in> set standards
                then Result_OK (count_classrooms f) label
                else Result_Not_OK (count_classrooms f) label standards)"
    using assms by (simp add: render_class_count_checker_def Let_def)
  ultimately show ?thesis
    using count_classrooms_length by blast
qed

lemma lower_classroom: "lower ''classroom'' = ''classroom''"
  by (simp add: lower_def lower_char_def)

lemma classroom_entity: "space_is_classroom (blank\<lparr>LongName := Some ''Classroom''\<rparr>)"
  by (simp add: space_is_classroom_def norm_casefold_def FIXED_ROOM_TERM_def blank_def
        strip_Classroom lower_Classroom lower_classroom)

lemma count_classrooms_file: "count_classrooms (classrooms_file n) = n"
  by (simp add: count_classrooms_length classrooms_file_def filter_map comp_def
        classroom_entity) (simp add: blank_def)

text \<open>A count of 9 passes for school type 1; a count of 10 fails and reports 6, 9, 12, 15.\<close>

theorem classroom_count_rule_witness:
  "render_class_count_checker (classrooms_file 9) ''1'' =
     Inr (Result_OK 9 ''first 3-year school'') \<and>
   render_class_count_checker (classrooms_file 10) ''1'' =
     Inr (Result_Not_OK 10 ''first 3-year school'' [6, 9, 12, 15])"
proof -
  have h: "map_of SCHOOL_TYPES ''1'' = Some (''first 3-year school'', [6, 9, 12, 15])"
    by (simp add: SCHOOL_TYPES_def)
  from classroom_count_rule[OF h, of "classrooms_file 9"]
       classroom_count_rule[OF h, of "classrooms_file 10"]
  show ?thesis by (simp add: count_classrooms_file)
qed

section \<open>Properties of the footprint area\<close>

lemma first_area_value_pos: "first_area_value vs = Some a \<Longrightarrow> 0 < a"
  by (induction vs) (auto split: option.splits if_splits)

lemma first_quantity_area_pos: "first_quantity_area rels = Some a \<Longrightarrow> 0 < a"
  by (induction rels) (auto split: option.splits dest: first_area_value_pos)

lemma fallback_pos: "fallback_space_area_m2 s = Some a \<Longrightarrow> 0 < a"
  by (auto simp: fallback_space_area_m2_def split: option.splits if_splits
           dest: first_quantity_area_pos)

lemma area_for_id_pos: "area_for_id B scale_m i s = Some a \<Longrightarrow> 0 < a"
  by (auto simp: area_for_id_def split: option.splits if_splits dest: fallback_pos)

lemma vertex_simps:
  "vertex [a0, a1, a2, b0, b1, b2, c0, c1, c2] 0 = Inr (a0, a1, a2)"
  "vertex [a0, a1, a2, b0, b1, b2, c0, c1, c2] 1 = Inr (b0, b1, b2)"
  "vertex [a0, a1, a2, b0, b1, b2, c0, c1, c2] 2 = Inr (c0, c1, c2)"
  by (simp_all add: vertex_def py_slice_def Let_def)

lemma tri_right:
  "triangles_from_shape right_triangle_mesh 1 = Inr [((0, 0), (2, 0), (0, 2))]"
  by (simp add: triangles_from_shape_def right_triangle_mesh_def vertex_simps)

lemma tri_collinear:
  "triangles_from_shape collinear_mesh 1 = Inr [((0, 0), (1, 1), (2, 2))]"
  by (simp add: triangles_from_shape_def collinear_mesh_def vertex_simps)

lemma tri_mixed:
  "triangles_from_shape mixed_mesh 1 =
     Inr [((0, 0), (2, 0), (0, 2)), ((0, 0), (1, 1), (2, 2))]"
  by (simp add: triangles_from_shape_def mixed_mesh_def vertex_def py_slice_def Let_def)


lemma degenerate_examples:
  "\<not> degenerate ((0, 0), (2, 0), (0, 2))" "degenerate ((0, 0), (1, 1), (2, 2))"
  by (simp_all add: degenerate_def signed_area2_def)

lemma geom_right: "space_geom_area_m2 (vertex_backend right_triangle_mesh) 0 1 = Some 2"
  by (simp add: space_geom_area_m2_def shape_polygons_def vertex_backend_def tri_right
        triangle_parts_def degenerate_examples signed_area2_def)

lemma geom_collinear: "space_geom_area_m2 (vertex_backend collinear_mesh) 0 1 = Some 0"
  by (simp add: space_geom_area_m2_def shape_polygons_def vertex_backend_def tri_collinear
        triangle_parts_def degenerate_examples)

lemma geom_mixed: "space_geom_area_m2 (vertex_backend mixed_mesh) 0 1 = Some 2"
  by (simp add: space_geom_area_m2_def shape_polygons_def vertex_backend_def tri_mixed
        triangle_parts_def degenerate_examples signed_area2_def)

lemma fallback_5: "fallback_space_area_m2 space_with_area_5 = Some 5"
  by (simp add: fallback_space_area_m2_def space_with_area_5_def blank_def)

text \<open>
  Claim C1, as stated: a geometric result of exactly 0 is reported as the known area 0 and
  is not replaced by the fallback value. For a space whose mesh is one triangle with
  collinear corners the geometric path yields 0, and \<^verbatim>\<open>area_for_id\<close> returns the
  attribute value 5 instead: the guard \<^verbatim>\<open>if a and a > 0\<close> lets only strictly positive
  geometric results through.
\<close>

theorem zero_geometric_area_counterexample:
  "space_geom_area_m2 (vertex_backend collinear_mesh) 0 1 = Some 0 \<and>
   fallback_space_area_m2 space_with_area_5 = Some 5 \<and>
   area_for_id (vertex_backend collinear_mesh) 1 0 space_with_area_5 = Some 5"
  by (simp add: area_for_id_def geom_collinear fallback_5)

text \<open>
  Claim C1, amended: whenever the geometric path yields a strictly positive area,
  \<^verbatim>\<open>area_for_id\<close> returns that value, whatever the fallback would yield. A geometric result
  that is 0 (or negative) is treated like a missing one: the result is that of the
  fallback, a value if it finds one and unknown otherwise. The known area 0 is never
  returned.
\<close>

theorem geometric_area_precedence:
  "(space_geom_area_m2 B i scale_m = Some a \<and> 0 < a \<longrightarrow>
      area_for_id B scale_m i s = Some a) \<and>
   (space_geom_area_m2 B i scale_m = Some a \<and> a \<le> 0 \<longrightarrow>
      area_for_id B scale_m i s = fallback_space_area_m2 s) \<and>
   (space_geom_area_m2 B i scale_m = None \<longrightarrow>
      area_for_id B scale_m i s = fallback_space_area_m2 s) \<and>
   area_for_id B scale_m i s \<noteq> Some 0"
proof -
  have "area_for_id B scale_m i s \<noteq> Some 0"
    using area_for_id_pos[of B scale_m i s 0] by auto
  then show ?thesis
    by (auto simp: area_for_id_def)
qed

theorem geometric_area_precedence_witness:
  "area_for_id (vertex_backend right_triangle_mesh) 1 0 space_with_area_5 = Some 2 \<and>
   fallback_space_area_m2 space_with_area_5 = Some 5 \<and>
   area_for_id (vertex_backend collinear_mesh) 1 0 space_with_area_5 = Some 5"
proof -
  from geometric_area_precedence[of "vertex_backend right_triangle_mesh" 0 1 2 space_with_area_5]
       geom_right
  have 1: "area_for_id (vertex_backend right_triangle_mesh) 1 0 space_with_area_5 = Some 2"
    by simp
  from geometric_area_precedence[of "vertex_backend collinear_mesh" 0 1 0 space_with_area_5]
       geom_collinear
  have 2: "area_for_id (vertex_backend collinear_mesh) 1 0 space_with_area_5 =
           fallback_space_area_m2 space_with_area_5"
    by simp
  from 1 2 fallback_5 show ?thesis by simp
qed














end
